theory Spec2Isabelle
  imports Main "HOL-Library.Word"
begin

unbundle bit_operations_syntax

section \<open>Path resolution: \<open>next3_block_to_path\<close> (fs/next3/inode.c)\<close>

text \<open>
  The slot layout of the inode comes from \<open>next3.h\<close>, which is not among the sources.
  The constants below follow the specification: twelve direct slots, then the single,
  double and triple indirect slots.  The number of triple indirect roots of a snapshot
  file (\<open>NEXT3_SNAPSHOT_NTIND_BLOCKS\<close>) is a parameter \<open>ntind\<close> of the model, and so is
  \<open>ptrs_bits\<close> (\<open>NEXT3_ADDR_PER_BLOCK_BITS\<close>); \<open>NEXT3_ADDR_PER_BLOCK\<close> is
  \<open>2 ^ ptrs_bits\<close>.  The function is modelled in the configuration with
  \<open>CONFIG_NEXT3_FS_SNAPSHOT_FILE_HUGE\<close>, where \<open>i_block\<close> is a \<open>__u32\<close>.
\<close>

definition NEXT3_NDIR_BLOCKS :: nat where
  "NEXT3_NDIR_BLOCKS = 12"

definition NEXT3_IND_BLOCK :: nat where
  "NEXT3_IND_BLOCK = NEXT3_NDIR_BLOCKS"

definition NEXT3_DIND_BLOCK :: nat where
  "NEXT3_DIND_BLOCK = NEXT3_IND_BLOCK + 1"

definition NEXT3_TIND_BLOCK :: nat where
  "NEXT3_TIND_BLOCK = NEXT3_DIND_BLOCK + 1"

text \<open>
  The tail of the function: \<open>*boundary = final - 1 - (i_block & (ptrs - 1))\<close>, computed
  in 32-bit unsigned arithmetic and stored into an \<open>int\<close>; the result is the path
  length \<open>n\<close>, the offsets written so far and the boundary.
\<close>

record path =
  depth :: nat
  offsets :: "nat list"
  boundary :: int

definition path_result :: "nat list \<Rightarrow> 32 word \<Rightarrow> 32 word \<Rightarrow> 32 word \<Rightarrow> path" where
  "path_result offs final ptrs i_block =
     \<lparr>depth = length offs, offsets = offs,
      boundary = sint (final - 1 - (i_block AND (ptrs - 1)))\<rparr>"

definition next3_block_to_path :: "nat \<Rightarrow> nat \<Rightarrow> bool \<Rightarrow> 32 word \<Rightarrow> path" where
  "next3_block_to_path ptrs_bits ntind snapshot_file i_block =
     (let ptrs = (push_bit ptrs_bits 1 :: 32 word);
          direct_blocks = (word_of_nat NEXT3_NDIR_BLOCKS :: 32 word);
          indirect_blocks = ptrs;
          double_blocks = (push_bit (ptrs_bits * 2) 1 :: 32 word)
      in if i_block < direct_blocks then
           path_result [unat i_block] direct_blocks ptrs i_block
         else let i1 = i_block - direct_blocks in
         if i1 < indirect_blocks then
           path_result [NEXT3_IND_BLOCK, unat i1] ptrs ptrs i1
         else let i2 = i1 - indirect_blocks in
         if i2 < double_blocks then
           path_result [NEXT3_DIND_BLOCK, unat (drop_bit ptrs_bits i2),
                        unat (i2 AND (ptrs - 1))] ptrs ptrs i2
         else let i3 = i2 - double_blocks in
         if drop_bit (ptrs_bits * 2) i3 < ptrs then
           path_result [NEXT3_TIND_BLOCK, unat (drop_bit (ptrs_bits * 2) i3),
                        unat (drop_bit ptrs_bits i3 AND (ptrs - 1)),
                        unat (i3 AND (ptrs - 1))] ptrs ptrs i3
         else if snapshot_file \<and> unat (drop_bit (ptrs_bits * 3) i3) < ntind then
           (let tind = drop_bit (ptrs_bits * 3) i3;
                i4 = i3 - push_bit (ptrs_bits * 3) tind
            in path_result [NEXT3_TIND_BLOCK + unat tind, unat (drop_bit (ptrs_bits * 2) i4),
                            unat (drop_bit ptrs_bits i4 AND (ptrs - 1)),
                            unat (i4 AND (ptrs - 1))] ptrs ptrs i4)
         else path_result [] 0 ptrs i3)"

subsection \<open>The boundary and the batch size: \<open>next3_blks_to_allocate\<close>\<close>

text \<open>
  The number of slots of the block that holds the last pointer of a path: the direct
  slots of the inode for a path of depth 1, a whole indirect block otherwise (the value
  \<open>final\<close> of \<open>next3_block_to_path\<close>).
\<close>

definition deepest_block_slots :: "nat \<Rightarrow> path \<Rightarrow> nat" where
  "deepest_block_slots ptrs_bits r = (if depth r = 1 then NEXT3_NDIR_BLOCKS else 2 ^ ptrs_bits)"

text \<open>
  The specification's reading of the boundary: the number of leaf slots of a block of
  \<open>slots\<close> slots that remain starting at position \<open>pos\<close>, that position included.
\<close>

definition leaf_slots_from :: "nat \<Rightarrow> nat \<Rightarrow> nat" where
  "leaf_slots_from slots pos = length [pos ..< slots]"

text \<open>
  \<open>next3_blks_to_allocate\<close> compares its \<open>unsigned long\<close> counters with the \<open>int\<close>
  \<open>blocks_to_boundary\<close>; C converts the \<open>int\<close> to \<open>unsigned long\<close> (64 bits) first.
  The loop reads \<open>*(branch[0].p + count)\<close>: \<open>slots\<close> is the block (or the inode's slot
  array) that holds \<open>branch[0].p\<close> and \<open>pos\<close> its index there; a read outside the block
  is the result \<open>None\<close>.  The C function returns the \<open>unsigned long\<close> count as an
  \<open>int\<close>; the model returns the count.
\<close>

definition ulong_of_int :: "int \<Rightarrow> nat" where
  "ulong_of_int x = nat (x mod 2 ^ 64)"

function blks_scan :: "32 word list \<Rightarrow> nat \<Rightarrow> nat \<Rightarrow> nat \<Rightarrow> nat \<Rightarrow> nat option" where
  "blks_scan slots pos blks btb count =
     (if count < blks \<and> count \<le> btb then
        (if pos + count < length slots then
           (if slots ! (pos + count) = 0 then blks_scan slots pos blks btb (count + 1)
            else Some count)
         else None)
      else Some count)"
  by pat_completeness auto
termination
  by (relation "measure (\<lambda>(slots, pos, blks, btb, count). blks - count)") auto

declare blks_scan.simps [simp del]

definition next3_blks_to_allocate :: "32 word list \<Rightarrow> nat \<Rightarrow> nat \<Rightarrow> nat \<Rightarrow> int \<Rightarrow> nat option" where
  "next3_blks_to_allocate slots pos k blks blocks_to_boundary =
     (if k > 0 then
        (if blks < ulong_of_int (blocks_to_boundary + 1) then Some blks
         else Some (ulong_of_int (blocks_to_boundary + 1)))
      else blks_scan slots pos blks (ulong_of_int blocks_to_boundary) 1)"

section \<open>Allocation goals: \<open>next3_find_near\<close> and \<open>next3_find_goal\<close> (fs/next3/inode.c)\<close>

text \<open>
  Slot values are 32-bit (\<open>__le32\<close>, read with \<open>le32_to_cpu\<close>); physical block numbers
  (\<open>next3_fsblk_t\<close>, an \<open>unsigned long\<close>) and the \<open>long\<close> logical block number are 64-bit
  words, as on an LP64 kernel.  A buffer head is its block number and its data read as
  slots.  An \<open>Indirect\<close> triple holds the pointer \<open>p\<close> as the index of the slot in the
  array it points into: the data of \<open>bh\<close>, or the inode's \<open>i_data\<close> when \<open>bh\<close> is
  \<open>NULL\<close>.  The fields \<open>p\<close>, \<open>key\<close> and \<open>bh\<close> carry the prefix \<open>ind_\<close>.
\<close>

record buffer =
  b_blocknr :: "64 word"
  b_data :: "32 word list"

record indirect =
  ind_p :: nat
  ind_key :: "32 word"
  ind_bh :: "buffer option"

record block_alloc_info =
  last_alloc_logical_block :: "32 word"
  last_alloc_physical_block :: "64 word"

record inode_info =
  i_data :: "32 word list"
  i_block_group :: nat
  i_block_alloc_info :: "block_alloc_info option"
  is_snapshot_file :: bool

text \<open>
  The superblock and the task enter as parameters: \<open>group_first_block_no\<close> stands for
  \<open>next3_group_first_block_no(sb, _)\<close>, \<open>blocks_per_group\<close> for
  \<open>NEXT3_BLOCKS_PER_GROUP(sb)\<close> and \<open>pid\<close> for \<open>current->pid\<close>.  The colour is stored
  in an \<open>int\<close> (\<open>next3_grpblk_t\<close>) and added to an \<open>unsigned long\<close>.
\<close>

definition colour :: "nat \<Rightarrow> nat \<Rightarrow> int" where
  "colour blocks_per_group pid =
     sint (word_of_nat ((pid mod 16) * (blocks_per_group div 16)) :: 32 word)"

definition next3_find_near :: "(nat \<Rightarrow> 64 word) \<Rightarrow> nat \<Rightarrow> nat \<Rightarrow> inode_info \<Rightarrow> indirect \<Rightarrow> 64 word" where
  "next3_find_near group_first_block_no blocks_per_group pid ei ind =
     (let start = (case ind_bh ind of Some b \<Rightarrow> b_data b | None \<Rightarrow> i_data ei)
      in case find (\<lambda>v. v \<noteq> 0) (rev (take (ind_p ind) start)) of
           Some v \<Rightarrow> ucast v
         | None \<Rightarrow>
             (case ind_bh ind of
                Some b \<Rightarrow> b_blocknr b
              | None \<Rightarrow> group_first_block_no (i_block_group ei)
                          + word_of_int (colour blocks_per_group pid)))"

text \<open>
  \<open>next3_find_goal\<close> with \<open>CONFIG_NEXT3_FS_SNAPSHOT_FILE_GOAL\<close>.  The comparison
  \<open>block == block_i->last_alloc_logical_block + 1\<close> adds in 32 bits and widens the sum
  to the \<open>long\<close> \<open>block\<close>.  \<open>SNAPSHOT_BLOCK\<close> is a macro of next3's \<open>snapshot.h\<close>,
  which is not among the sources; it is the parameter \<open>snapshot_block\<close>, the function
  from a logical block of a snapshot file to the physical block it stands for.
\<close>

definition next3_find_goal :: "(64 word \<Rightarrow> 64 word) \<Rightarrow> (nat \<Rightarrow> 64 word) \<Rightarrow> nat \<Rightarrow> nat \<Rightarrow> inode_info \<Rightarrow> 64 word \<Rightarrow> indirect \<Rightarrow> 64 word" where
  "next3_find_goal snapshot_block group_first_block_no blocks_per_group pid ei block partial =
     (case i_block_alloc_info ei of
        Some block_i \<Rightarrow>
          if block = ucast (last_alloc_logical_block block_i + 1)
             \<and> last_alloc_physical_block block_i \<noteq> 0
          then last_alloc_physical_block block_i + 1
          else if is_snapshot_file ei then snapshot_block block
          else next3_find_near group_first_block_no blocks_per_group pid ei partial
      | None \<Rightarrow>
          if is_snapshot_file ei then snapshot_block block
          else next3_find_near group_first_block_no blocks_per_group pid ei partial)"

text \<open>
  A regular file whose allocation info was just initialised (both fields zero, as
  \<open>next3_init_block_alloc_info\<close> leaves them) and a hole in slot 1 of its inode, with
  slot 0 pointing to block 500; groups of 8192 blocks, the first at block 1.
\<close>

definition fresh_file :: inode_info where
  "fresh_file = \<lparr>i_data = [500, 0, 0, 0, 0, 0, 0, 0, 0, 0, 0, 0, 0, 0, 0],
                 i_block_group = 3,
                 i_block_alloc_info = Some \<lparr>last_alloc_logical_block = 0,
                                            last_alloc_physical_block = 0\<rparr>,
                 is_snapshot_file = False\<rparr>"

definition example_group_first_block_no :: "nat \<Rightarrow> 64 word" where
  "example_group_first_block_no g = word_of_nat (g * 8192 + 1)"

definition hole_at_1 :: indirect where
  "hole_at_1 = \<lparr>ind_p = 1, ind_key = 0, ind_bh = None\<rparr>"

text \<open>
  In the examples \<open>SNAPSHOT_BLOCK\<close> takes a logical block of a snapshot file back by the
  12 direct slots and one indirect block of 256 slots, and \<open>snapshot_file_7\<close> is a
  snapshot file without allocation info.
\<close>

definition example_snapshot_block :: "64 word \<Rightarrow> 64 word" where
  "example_snapshot_block iblock = iblock - (12 + 256)"

definition snapshot_file_7 :: inode_info where
  "snapshot_file_7 = \<lparr>i_data = [0, 0, 0, 0, 0, 0, 0, 0, 0, 0, 0, 0, 0, 0, 0],
                      i_block_group = 3, i_block_alloc_info = None,
                      is_snapshot_file = True\<rparr>"

section \<open>The credits of a truncate transaction (fs/next3/inode.c)\<close>

text \<open>
  \<open>NEXT3_MAX_TRANS_DATA\<close> and \<open>NEXT3_DATA_TRANS_BLOCKS(sb)\<close> are macros of
  \<open>next3_jbd.h\<close>, which is not among the sources; they are the parameters
  \<open>max_trans_data\<close> and \<open>data_trans_blocks\<close>.  \<open>i_blocks\<close> and \<open>needed\<close> are 64-bit.
  The shift count \<open>s_blocksize_bits - 9\<close> is an \<open>int\<close>; the model is the C function for
  \<open>s_blocksize_bits \<ge> 9\<close>.
\<close>

definition blocks_for_truncate :: "64 word \<Rightarrow> 64 word \<Rightarrow> 64 word \<Rightarrow> nat \<Rightarrow> 64 word" where
  "blocks_for_truncate max_trans_data data_trans_blocks i_blocks s_blocksize_bits =
     (let needed = drop_bit (s_blocksize_bits - 9) i_blocks;
          needed = (if needed < 2 then 2 else needed);
          needed = (if needed > max_trans_data then max_trans_data else needed)
      in data_trans_blocks + needed)"

text \<open>
  \<open>start_transaction\<close> passes the budget to \<open>next3_journal_start\<close>, whose parameter is an
  \<open>int\<close>.  The journal is the parameter \<open>journal_start\<close>: it returns a handle or an
  error code.  The second component of the result tells whether \<open>next3_std_error\<close> was
  called.
\<close>

definition start_transaction :: "(int \<Rightarrow> int + 'h) \<Rightarrow> 64 word \<Rightarrow> 64 word \<Rightarrow> 64 word \<Rightarrow> nat \<Rightarrow> (int + 'h) \<times> bool" where
  "start_transaction journal_start max_trans_data data_trans_blocks i_blocks s_blocksize_bits =
     (let result = journal_start (sint (ucast
                     (blocks_for_truncate max_trans_data data_trans_blocks i_blocks
                        s_blocksize_bits) :: 32 word))
      in case result of Inr h \<Rightarrow> (result, False) | Inl e \<Rightarrow> (result, True))"

section \<open>The snapshot COW engine (ext4 snapshot.c and snapshot.h)\<close>

subsection \<open>Data\<close>

text \<open>
  Error codes are values; a function that returns an \<open>int\<close> returns \<open>- errno_val e\<close>
  for the error \<open>e\<close>.
\<close>

datatype errno = EPERM | EIO | EAGAIN | ENOMEM | ENOSPC | EROFS

fun errno_val :: "errno \<Rightarrow> int" where
  "errno_val EPERM = 1"
| "errno_val EIO = 5"
| "errno_val EAGAIN = 11"
| "errno_val ENOMEM = 12"
| "errno_val ENOSPC = 28"
| "errno_val EROFS = 30"

text \<open>
  The journal head of a buffer carries \<open>b_cow_tid\<close>.  Of a buffer head the engine reads
  the block number, the state bits \<open>BH_JBD\<close>, \<open>BH_Mapped\<close> and \<open>BH_Uptodate\<close>, and the
  journal head (\<open>bh2jh\<close>).  Of the handle it reads and writes \<open>h_cowing\<close> and reads
  \<open>h_transaction->t_tid\<close>.  An inode is known by its number; \<open>i_isreg\<close> is
  \<open>S_ISREG(i_mode)\<close> and \<open>i_snapfile\<close> the flag \<open>EXT4_INODE_SNAPFILE\<close>.
\<close>

record journal_head =
  b_cow_tid :: "32 word"

record buffer_head =
  bh_blocknr :: "64 word"
  bh_jbd :: bool
  bh_jh :: "journal_head option"
  bh_mapped :: bool
  bh_uptodate :: bool

record handle =
  h_cowing :: bool
  t_tid :: "32 word"

record vfs_inode =
  i_ino :: nat
  i_isreg :: bool
  i_snapfile :: bool

text \<open>
  The functions that the engine calls with its handle.  The trace of a run lists them in
  call order, each with the value of \<open>h_cowing\<close> in the handle it received.
\<close>

datatype callee = Test_cow_bitmap | Map_blocks_read | Getblk_cow | Copy_buffer_cow
  | Map_blocks_move

text \<open>
  \<open>ext4_getblk\<close> with \<open>SNAPMAP_COW\<close> returns \<open>NULL\<close> and an error code, or a buffer
  with \<open>*errp = 0\<close> (the block was mapped by another task), or a buffer with
  \<open>*errp = 1\<close> (newly allocated and locked).
\<close>

datatype getblk_result = Getblk_null errno | Getblk_mapped | Getblk_new

text \<open>
  The environment of one call of the engine: what the block layer, the journal and the
  allocator answer.  \<open>read_cow_bitmap\<close> gives for a block group the bits of the COW
  bitmap, or \<open>None\<close> when \<open>ext4_snapshot_read_cow_bitmap\<close> returns \<open>NULL\<close>;
  \<open>range_count\<close> is the count that \<open>ext4_mb_test_bit_range\<close> stores through its
  last argument; \<open>map_blocks_read\<close> is the answer of \<open>ext4_snapshot_map_blocks\<close> with
  \<open>SNAPMAP_READ\<close> (an error or the number of mapped blocks, 0 for a hole);
  \<open>reread_uptodate\<close> tells whether reading the source buffer from disk succeeds;
  \<open>jbd2_file_inode\<close> is the error of \<open>ext4_jbd2_file_inode\<close>, if any; and
  \<open>map_blocks_move\<close> lists the answers of the successive calls of
  \<open>ext4_snapshot_map_blocks\<close> with \<open>SNAPMAP_MOVE\<close>.
\<close>

record cow_env =
  page_shift :: nat
  snapshot_blocks :: "64 word"
  read_cow_bitmap :: "nat \<Rightarrow> (nat \<Rightarrow> bool) option"
  range_count :: int
  map_blocks_read :: "errno + nat"
  reread_uptodate :: bool
  getblk_cow :: getblk_result
  jbd2_file_inode :: "errno option"
  map_blocks_move :: "(errno + nat) list"

record cow_state =
  st_handle :: handle
  st_bh :: "buffer_head option"
  st_trace :: "(callee \<times> bool) list"

subsection \<open>Helpers of snapshot.h\<close>

definition SNAPSHOT_BLOCK_GROUP :: "cow_env \<Rightarrow> 64 word \<Rightarrow> nat" where
  "SNAPSHOT_BLOCK_GROUP env block = unat (drop_bit (page_shift env + 3) block)"

definition SNAPSHOT_BLOCK_GROUP_OFFSET :: "cow_env \<Rightarrow> 64 word \<Rightarrow> nat" where
  "SNAPSHOT_BLOCK_GROUP_OFFSET env block =
     unat (block AND (push_bit (page_shift env + 3) 1 - 1))"

definition ext4_snapshot_file :: "vfs_inode \<Rightarrow> bool" where
  "ext4_snapshot_file inode = (if \<not> i_isreg inode then False else i_snapfile inode)"

definition ext4_snapshot_excluded :: "vfs_inode option \<Rightarrow> int" where
  "ext4_snapshot_excluded inode =
     (case inode of
        None \<Rightarrow> 0
      | Some i \<Rightarrow> if \<not> i_isreg i then 0 else if ext4_snapshot_file i then - 1 else 0)"

text \<open>\<open>inode == active_snapshot\<close>: the same in-core inode.\<close>

definition same_inode :: "vfs_inode option \<Rightarrow> vfs_inode \<Rightarrow> bool" where
  "same_inode inode snapshot = (case inode of None \<Rightarrow> False | Some i \<Rightarrow> i_ino i = i_ino snapshot)"

subsection \<open>The COW bitmap test\<close>

text \<open>
  \<open>ext4_mb_test_bit_range\<close> is defined in \<open>mballoc.c\<close>, which is not among the sources.
  Modelled from the spec: a set bit of the COW bitmap means that the block was in use
  when the snapshot was taken; the function returns the bit as 1 or 0 and stores a count
  of blocks, taken from the environment.
\<close>

definition ext4_mb_test_bit_range :: "cow_env \<Rightarrow> nat \<Rightarrow> (nat \<Rightarrow> bool) \<Rightarrow> int \<times> int" where
  "ext4_mb_test_bit_range env nr bitmap = (if bitmap nr then 1 else 0, range_count env)"

definition ext4_snapshot_test_cow_bitmap :: "cow_env \<Rightarrow> 64 word \<Rightarrow> int \<Rightarrow> int \<times> int" where
  "ext4_snapshot_test_cow_bitmap env block maxblocks =
     (if block \<ge> snapshot_blocks env then (0, maxblocks)
      else case read_cow_bitmap env (SNAPSHOT_BLOCK_GROUP env block) of
             None \<Rightarrow> (- errno_val EIO, maxblocks)
           | Some cow_bh \<Rightarrow>
               ext4_mb_test_bit_range env (SNAPSHOT_BLOCK_GROUP_OFFSET env block) cow_bh)"

subsection \<open>The COW cache of the journal\<close>

text \<open>\<open>cow_cache_enabled()\<close> is 1 (the cache is switched on when the module starts).\<close>

definition ext4_snapshot_test_cowed :: "handle \<Rightarrow> buffer_head option \<Rightarrow> bool" where
  "ext4_snapshot_test_cowed h bh =
     (case bh of
        None \<Rightarrow> False
      | Some b \<Rightarrow>
          if bh_jbd b then
            (case bh_jh b of None \<Rightarrow> False | Some jh \<Rightarrow> b_cow_tid jh = t_tid h)
          else False)"

definition ext4_snapshot_mark_cowed :: "handle \<Rightarrow> buffer_head option \<Rightarrow> buffer_head option" where
  "ext4_snapshot_mark_cowed h bh =
     (case bh of
        None \<Rightarrow> None
      | Some b \<Rightarrow>
          if bh_jbd b then
            (case bh_jh b of
               None \<Rightarrow> Some b
             | Some jh \<Rightarrow>
                 if b_cow_tid jh \<noteq> t_tid h
                 then Some (b\<lparr>bh_jh := Some (jh\<lparr>b_cow_tid := t_tid h\<rparr>)\<rparr>)
                 else Some b)
          else Some b)"

subsection \<open>\<open>ext4_snapshot_test_and_cow\<close>\<close>

definition ext4_snapshot_cow_begin :: "handle \<Rightarrow> handle" where
  "ext4_snapshot_cow_begin h = h\<lparr>h_cowing := True\<rparr>"

definition ext4_snapshot_cow_end :: "handle \<Rightarrow> handle" where
  "ext4_snapshot_cow_end h = h\<lparr>h_cowing := False\<rparr>"

text \<open>A call of a callee with the handle of the state.\<close>

definition call :: "callee \<Rightarrow> cow_state \<Rightarrow> cow_state" where
  "call c s = s\<lparr>st_trace := st_trace s @ [(c, h_cowing (st_handle s))]\<rparr>"

text \<open>The labels \<open>out\<close> and \<open>cowed\<close> of the function.\<close>

definition cow_out :: "int \<Rightarrow> cow_state \<Rightarrow> int \<times> cow_state" where
  "cow_out err s = (err, s\<lparr>st_handle := ext4_snapshot_cow_end (st_handle s)\<rparr>)"

definition cow_cowed :: "int \<Rightarrow> cow_state \<Rightarrow> int \<times> cow_state" where
  "cow_cowed err s = cow_out err (s\<lparr>st_bh := ext4_snapshot_mark_cowed (st_handle s) (st_bh s)\<rparr>)"

text \<open>
  From \<open>try to allocate snapshot block\<close> on: the source buffer \<open>b\<close> is mapped and up to
  date.
\<close>

definition cow_copy :: "cow_env \<Rightarrow> cow_state \<Rightarrow> int \<times> cow_state" where
  "cow_copy env s =
     (let s = call Getblk_cow s
      in case getblk_cow env of
           Getblk_null e \<Rightarrow> cow_out (- errno_val e) s
         | Getblk_mapped \<Rightarrow> cow_cowed 0 s
         | Getblk_new \<Rightarrow>
             (let s = call Copy_buffer_cow s
              in case jbd2_file_inode env of
                   Some e \<Rightarrow> cow_out (- errno_val e) s
                 | None \<Rightarrow> cow_cowed 0 s))"

definition ext4_snapshot_test_and_cow :: "cow_env \<Rightarrow> vfs_inode option \<Rightarrow> vfs_inode option \<Rightarrow> 64 word \<Rightarrow> bool \<Rightarrow> cow_state \<Rightarrow> int \<times> cow_state" where
  "ext4_snapshot_test_and_cow env active_snapshot inode block cow s =
     (case active_snapshot of
        None \<Rightarrow> (0, s)
      | Some snapshot \<Rightarrow>
          if h_cowing (st_handle s) then (0, s)
          else if same_inode inode snapshot then (- errno_val EPERM, s)
          else if ext4_snapshot_test_cowed (st_handle s) (st_bh s) then (0, s)
          else
            (let s = s\<lparr>st_handle := ext4_snapshot_cow_begin (st_handle s)\<rparr>;
                 clear = ext4_snapshot_excluded inode;
                 cow = (if clear < 0 then False else cow);
                 s = call Test_cow_bitmap s;
                 (err, count) = ext4_snapshot_test_cow_bitmap env block 1
             in if err < 0 then cow_out err s
                else if err = 0 then cow_cowed err s
                else
                  (let s = call Map_blocks_read s
                   in case map_blocks_read env of
                        Inl e \<Rightarrow> cow_out (- errno_val e) s
                      | Inr mapped \<Rightarrow>
                          if mapped > 0 then cow_cowed 0 s
                          else if \<not> cow then cow_out 1 s
                          else
                            (case st_bh s of
                               None \<Rightarrow> cow_out (- errno_val EIO) s
                             | Some b \<Rightarrow>
                                 if \<not> bh_mapped b then cow_out (- errno_val EIO) s
                                 else if \<not> bh_uptodate b then
                                   (if \<not> reread_uptodate env then cow_out (- errno_val EIO) s
                                    else cow_copy env
                                           (s\<lparr>st_bh := Some (b\<lparr>bh_uptodate := True\<rparr>)\<rparr>))
                                 else cow_copy env s))))"

subsection \<open>The hooks of the journal (snapshot.h)\<close>

text \<open>
  \<open>snapshots\<close> is \<open>EXT4_SNAPSHOTS(sb)\<close>, the feature flag of the superblock.  The hooks
  read the block number of the buffer they are given.
\<close>

definition ext4_snapshot_get_write_access :: "cow_env \<Rightarrow> bool \<Rightarrow> vfs_inode option \<Rightarrow> vfs_inode option \<Rightarrow> handle \<Rightarrow> buffer_head \<Rightarrow> int \<times> cow_state" where
  "ext4_snapshot_get_write_access env snapshots active_snapshot inode h b =
     (let s = \<lparr>st_handle = h, st_bh = Some b, st_trace = []\<rparr>
      in if \<not> snapshots then (0, s)
         else ext4_snapshot_test_and_cow env active_snapshot inode (bh_blocknr b) True s)"

definition ext4_snapshot_get_create_access :: "cow_env \<Rightarrow> bool \<Rightarrow> vfs_inode option \<Rightarrow> handle \<Rightarrow> buffer_head \<Rightarrow> int \<times> cow_state" where
  "ext4_snapshot_get_create_access env snapshots active_snapshot h b =
     (let s = \<lparr>st_handle = h, st_bh = Some b, st_trace = []\<rparr>
      in if \<not> snapshots then (0, s)
         else (let (err, s) = ext4_snapshot_test_and_cow env active_snapshot None
                                (bh_blocknr b) False s
               in (if err > 0 then - errno_val EIO else err, s)))"

subsection \<open>\<open>ext4_snapshot_test_and_move\<close>\<close>

text \<open>
  The state of a move: the handle, the quota charged to each inode (by inode number, in
  blocks) and the trace.  \<open>dquot_free_block\<close> and \<open>dquot_alloc_block_nofail\<close> change
  the charge of one inode.
\<close>

record move_state =
  mv_handle :: handle
  mv_quota :: "nat \<Rightarrow> int"
  mv_trace :: "(callee \<times> bool) list"

definition dquot_free_block :: "nat \<Rightarrow> int \<Rightarrow> (nat \<Rightarrow> int) \<Rightarrow> (nat \<Rightarrow> int)" where
  "dquot_free_block ino n q = q(ino := q ino - n)"

definition dquot_alloc_block_nofail :: "nat \<Rightarrow> int \<Rightarrow> (nat \<Rightarrow> int) \<Rightarrow> (nat \<Rightarrow> int)" where
  "dquot_alloc_block_nofail ino n q = q(ino := q ino + n)"

definition call_mv :: "callee \<Rightarrow> move_state \<Rightarrow> move_state" where
  "call_mv c s = s\<lparr>mv_trace := mv_trace s @ [(c, h_cowing (mv_handle s))]\<rparr>"

text \<open>
  A run of the function returns, hits \<open>BUG_ON\<close>, or asks the environment for an answer
  it does not have.
\<close>

datatype 'a run = Done 'a | Bug_on | No_answer

text \<open>
  The loop \<open>while (count)\<close>.  Each round calls \<open>ext4_snapshot_map_blocks\<close> with
  \<open>SNAPMAP_MOVE\<close>; the call that maps \<open>k\<close> blocks into the snapshot file charges them
  to the snapshot inode (\<open>dquot_alloc_block_nofail\<close> in the branch allocator), and a
  call that fails has refunded its charge.  The result is the error that ended the loop,
  if any, the remaining count, the blocks moved and the state.
\<close>

fun move_blocks :: "(errno + nat) list \<Rightarrow> nat \<Rightarrow> int \<Rightarrow> int \<Rightarrow> move_state \<Rightarrow> (int option \<times> int \<times> int \<times> move_state) option" where
  "move_blocks [] snap count moved_blks s =
     (if count = 0 then Some (None, count, moved_blks, s) else None)"
| "move_blocks (a # answers) snap count moved_blks s =
     (if count = 0 then Some (None, count, moved_blks, s)
      else
        (let s = call_mv Map_blocks_move s
         in case a of
              Inl e \<Rightarrow> Some (Some (- errno_val e), count, moved_blks, s)
            | Inr k \<Rightarrow>
                if k = 0 then Some (Some 0, count, moved_blks, s)
                else move_blocks answers snap (count - int k) (moved_blks + int k)
                       (s\<lparr>mv_quota := dquot_alloc_block_nofail snap (int k) (mv_quota s)\<rparr>)))"

definition move_out :: "int \<Rightarrow> int \<Rightarrow> move_state \<Rightarrow> (int \<times> int \<times> move_state) run" where
  "move_out err count s = Done (err, count, s\<lparr>mv_handle := ext4_snapshot_cow_end (mv_handle s)\<rparr>)"

text \<open>
  The function without \<open>CONFIG_EXT4_DEBUG\<close>.  The result is the return value, the value
  left in \<open>*maxblocks\<close> and the state.
\<close>

definition ext4_snapshot_test_and_move :: "cow_env \<Rightarrow> vfs_inode option \<Rightarrow> vfs_inode option \<Rightarrow> 64 word \<Rightarrow> int \<Rightarrow> bool \<Rightarrow> move_state \<Rightarrow> (int \<times> int \<times> move_state) run" where
  "ext4_snapshot_test_and_move env active_snapshot inode block maxblocks move s =
     (case active_snapshot of
        None \<Rightarrow> Done (0, maxblocks, s)
      | Some snapshot \<Rightarrow>
          if h_cowing (mv_handle s) \<or> same_inode inode snapshot then Bug_on
          else
            (let s = s\<lparr>mv_handle := ext4_snapshot_cow_begin (mv_handle s)\<rparr>;
                 excluded = ext4_snapshot_excluded inode;
                 move = (if excluded \<noteq> 0 then False else move);
                 s = call_mv Test_cow_bitmap s;
                 (err, count) = ext4_snapshot_test_cow_bitmap env block maxblocks
             in if err < 0 then move_out err count s
                else if err = 0 then move_out err count s
                else
                  (let s = call_mv Map_blocks_read s
                   in case map_blocks_read env of
                        Inl e \<Rightarrow> move_out (- errno_val e) count s
                      | Inr mapped \<Rightarrow>
                          if mapped > 0 then move_out 0 (int mapped) s
                          else if \<not> move then move_out count count s
                          else
                            (case move_blocks (map_blocks_move env) (i_ino snapshot) count 0 s of
                               None \<Rightarrow> No_answer
                             | Some (Some err, count, moved_blks, s) \<Rightarrow> move_out err count s
                             | Some (None, count, moved_blks, s) \<Rightarrow>
                                 (let s = (case inode of
                                             None \<Rightarrow> s
                                           | Some i \<Rightarrow>
                                               s\<lparr>mv_quota := dquot_free_block (i_ino i) moved_blks
                                                                (mv_quota s)\<rparr>)
                                  in move_out moved_blks moved_blks s)))))"

subsection \<open>A small filesystem for worked examples\<close>

text \<open>
  An active snapshot (inode 12), a regular file (inode 40) and an older snapshot file
  (inode 11); 4 KiB pages; a COW bitmap in which only blocks 100 and 101 of each group
  are in use; a snapshot file that maps nothing yet.  In \<open>example_env\<close> the allocator
  and the journal succeed.  In \<open>enospc_env\<close> the blocks in use are 1023 and 1024, the
  last block that the first indirect block of the snapshot file maps and the first
  block of the next one (blocks of 4 KiB hold 1024 pointers); the first move maps block
  1023 and the second, which needs a new indirect block, fails with \<open>ENOSPC\<close>.
\<close>

definition active_snapshot_12 :: vfs_inode where
  "active_snapshot_12 = \<lparr>i_ino = 12, i_isreg = True, i_snapfile = True\<rparr>"

definition old_snapshot_11 :: vfs_inode where
  "old_snapshot_11 = \<lparr>i_ino = 11, i_isreg = True, i_snapfile = True\<rparr>"

definition regular_file_40 :: vfs_inode where
  "regular_file_40 = \<lparr>i_ino = 40, i_isreg = True, i_snapfile = False\<rparr>"

definition example_bitmap :: "nat \<Rightarrow> bool" where
  "example_bitmap nr = (nr = 100 \<or> nr = 101)"

definition example_read_cow_bitmap :: "nat \<Rightarrow> (nat \<Rightarrow> bool) option" where
  "example_read_cow_bitmap g = Some example_bitmap"

definition example_env :: cow_env where
  "example_env = \<lparr>page_shift = 12, snapshot_blocks = 1000000,
                   read_cow_bitmap = example_read_cow_bitmap, range_count = 2,
                   map_blocks_read = Inr 0, reread_uptodate = True,
                   getblk_cow = Getblk_new, jbd2_file_inode = None,
                   map_blocks_move = [Inr 1, Inr 1]\<rparr>"

definition boundary_bitmap :: "nat \<Rightarrow> bool" where
  "boundary_bitmap nr = (nr = 1023 \<or> nr = 1024)"

definition boundary_read_cow_bitmap :: "nat \<Rightarrow> (nat \<Rightarrow> bool) option" where
  "boundary_read_cow_bitmap g = Some boundary_bitmap"

definition enospc_env :: cow_env where
  "enospc_env = example_env\<lparr>read_cow_bitmap := boundary_read_cow_bitmap,
                            map_blocks_move := [Inr 1, Inl ENOSPC]\<rparr>"

definition journalled_buffer :: buffer_head where
  "journalled_buffer = \<lparr>bh_blocknr = 100, bh_jbd = True, bh_jh = Some \<lparr>b_cow_tid = 6\<rparr>,
                         bh_mapped = True, bh_uptodate = True\<rparr>"

definition handle_7 :: handle where
  "handle_7 = \<lparr>h_cowing = False, t_tid = 7\<rparr>"

definition cowing_handle_7 :: handle where
  "cowing_handle_7 = \<lparr>h_cowing = True, t_tid = 7\<rparr>"

definition cow_state_7 :: cow_state where
  "cow_state_7 = \<lparr>st_handle = handle_7, st_bh = Some journalled_buffer, st_trace = []\<rparr>"

definition no_quota :: "nat \<Rightarrow> int" where
  "no_quota ino = 0"

definition move_state_7 :: move_state where
  "move_state_7 = \<lparr>mv_handle = handle_7, mv_quota = no_quota, mv_trace = []\<rparr>"

subsection \<open>Notions used in the statements\<close>

text \<open>
  A run that began a COW or move operation: at the end the flag \<open>h_cowing\<close> is
  cleared, the run called at least one callee, and every callee it called received the
  handle with the flag set.
\<close>

definition cow_bracket :: "cow_state \<Rightarrow> cow_state \<Rightarrow> bool" where
  "cow_bracket s s' =
     (\<not> h_cowing (st_handle s')
      \<and> (\<exists>new. st_trace s' = st_trace s @ new \<and> new \<noteq> [] \<and> (\<forall>c \<in> set new. snd c)))"

definition move_bracket :: "move_state \<Rightarrow> move_state \<Rightarrow> bool" where
  "move_bracket s s' =
     (\<not> h_cowing (mv_handle s')
      \<and> (\<exists>new. mv_trace s' = mv_trace s @ new \<and> new \<noteq> [] \<and> (\<forall>c \<in> set new. snd c)))"

text \<open>
  The environment has an answer for every call of the loop of \<open>test_and_move\<close> that
  starts with \<open>count\<close> blocks to move: the loop ends when the count reaches zero and
  when a call returns an error or zero.
\<close>

fun answers_suffice :: "(errno + nat) list \<Rightarrow> int \<Rightarrow> bool" where
  "answers_suffice [] count = (count = 0)"
| "answers_suffice (a # answers) count =
     (count = 0 \<or> (case a of Inl e \<Rightarrow> True
                          | Inr k \<Rightarrow> k = 0 \<or> answers_suffice answers (count - int k)))"

text \<open>
  \<open>test_and_move\<close> reaches its loop: the blocks are in use by the snapshot and not
  mapped in the snapshot file, the caller asked for the move and the inode is not
  excluded.
\<close>

definition move_loop_reached :: "cow_env \<Rightarrow> vfs_inode option \<Rightarrow> 64 word \<Rightarrow> int \<Rightarrow> bool \<Rightarrow> bool" where
  "move_loop_reached env inode block maxblocks move =
     (0 < fst (ext4_snapshot_test_cow_bitmap env block maxblocks)
      \<and> map_blocks_read env = Inr 0 \<and> move \<and> ext4_snapshot_excluded inode = 0)"

text \<open>
  The block is in use by the snapshot: it lies below the size of the snapshot and its
  bit is set in the COW bitmap of its group.
\<close>

definition in_use_by_snapshot :: "cow_env \<Rightarrow> 64 word \<Rightarrow> bool" where
  "in_use_by_snapshot env block =
     (if block \<ge> snapshot_blocks env then False
      else case read_cow_bitmap env (SNAPSHOT_BLOCK_GROUP env block) of
             None \<Rightarrow> False
           | Some cow_bh \<Rightarrow> cow_bh (SNAPSHOT_BLOCK_GROUP_OFFSET env block))"

text \<open>
  The copy of a block to the snapshot succeeds: the source buffer is there, mapped and
  up to date (at once or after it was read again), and \<open>ext4_getblk\<close> gives a snapshot
  buffer that another task has filled already or that is new and is filled by
  \<open>ext4_snapshot_copy_buffer_cow\<close> without error.
\<close>

definition copy_succeeds :: "cow_env \<Rightarrow> cow_state \<Rightarrow> bool" where
  "copy_succeeds env s =
     ((case st_bh s of
         None \<Rightarrow> False
       | Some b \<Rightarrow> bh_mapped b \<and> (bh_uptodate b \<or> reread_uptodate env))
      \<and> (case getblk_cow env of
            Getblk_null e \<Rightarrow> False
          | Getblk_mapped \<Rightarrow> True
          | Getblk_new \<Rightarrow> jbd2_file_inode env = None))"

text \<open>The buffer of the state is attached to the journal and its journal head carries \<open>tid\<close>.\<close>

definition tagged :: "32 word \<Rightarrow> cow_state \<Rightarrow> bool" where
  "tagged tid s = (\<exists>b1 jh1. st_bh s = Some b1 \<and> bh_jbd b1 \<and> bh_jh b1 = Some jh1
                          \<and> b_cow_tid jh1 = tid)"

section \<open>Truncate: the guards of \<open>next3_truncate\<close> (fs/next3/inode.c)\<close>

text \<open>
  The inode as \<open>next3_truncate\<close> sees it: the type bits of \<open>i_mode\<close>, the flags behind
  \<open>IS_APPEND\<close> and \<open>IS_IMMUTABLE\<close>, the sizes, the block count, the slot array
  \<open>i_data\<close>, the link count, whether the inode is on the snapshot list
  (\<open>next3_snapshot_list\<close>) and whether it is a snapshot file, and the state flag
  \<open>NEXT3_STATE_FLUSH_ON_CLOSE\<close>.  The fields carry the prefix \<open>ti_\<close>.
\<close>

datatype file_type = S_IFREG | S_IFDIR | S_IFLNK | S_IFOTHER

record tinode =
  ti_type :: file_type
  ti_append :: bool
  ti_immutable :: bool
  ti_size :: "64 word"
  ti_disksize :: "64 word"
  ti_blocks :: "64 word"
  ti_file_acl :: "32 word"
  ti_data :: "32 word list"
  ti_nlink :: nat
  ti_snapshot_list :: bool
  ti_snapshot_file :: bool
  ti_flush_on_close :: bool

text \<open>
  The state: the inode, whether it is on the orphan list, and the runs of blocks handed
  to \<open>next3_free_blocks\<close> so far.
\<close>

record truncate_state =
  ts_inode :: tinode
  ts_orphan :: bool
  ts_freed :: "(32 word \<times> nat) list"

text \<open>
  The environment: the geometry of the superblock, the journal, the page cache and the
  two parts of the function that work on the tree.  \<open>te_block_truncate_page\<close> stands
  for \<open>next3_block_truncate_page\<close>; \<open>te_free_tree\<close>, given the path to the last block,
  stands for the part of the function between \<open>mutex_lock\<close> and
  \<open>next3_mark_inode_dirty\<close>, which frees the blocks beyond the new size.
\<close>

record truncate_env =
  te_blocksize_bits :: nat
  te_ntind :: nat
  te_max_trans_data :: "64 word"
  te_data_trans_blocks :: "64 word"
  te_should_writeback_data :: bool
  te_grab_cache_page :: bool
  te_journal_start :: "int \<Rightarrow> int + nat"
  te_orphan_add :: "errno option"
  te_block_truncate_page :: "truncate_state \<Rightarrow> truncate_state"
  te_free_tree :: "nat \<Rightarrow> nat list \<Rightarrow> truncate_state \<Rightarrow> truncate_state"

definition next3_inode_is_fast_symlink :: "truncate_env \<Rightarrow> tinode \<Rightarrow> bool" where
  "next3_inode_is_fast_symlink env inode =
     (let ea_blocks = (if ti_file_acl inode \<noteq> 0
                       then drop_bit 9 (push_bit (te_blocksize_bits env) 1 :: 64 word) else 0)
      in ti_type inode = S_IFLNK \<and> ti_blocks inode - ea_blocks = 0)"

definition next3_can_truncate :: "truncate_env \<Rightarrow> tinode \<Rightarrow> bool" where
  "next3_can_truncate env inode =
     (if ti_append inode \<or> ti_immutable inode then False
      else if ti_type inode = S_IFREG then True
      else if ti_type inode = S_IFDIR then True
      else if ti_type inode = S_IFLNK then \<not> next3_inode_is_fast_symlink env inode
      else False)"

text \<open>The labels \<open>out_notrans\<close> and \<open>out_stop\<close>: both delete the orphan record of a linked inode.\<close>

definition out_notrans :: "truncate_state \<Rightarrow> truncate_state" where
  "out_notrans s = (if ti_nlink (ts_inode s) \<noteq> 0 then s\<lparr>ts_orphan := False\<rparr> else s)"

definition out_stop :: "truncate_state \<Rightarrow> truncate_state" where
  "out_stop s = (if ti_nlink (ts_inode s) \<noteq> 0 then s\<lparr>ts_orphan := False\<rparr> else s)"

definition next3_truncate :: "truncate_env \<Rightarrow> truncate_state \<Rightarrow> truncate_state" where
  "next3_truncate env s =
     (let inode = ts_inode s;
          blocksize = (push_bit (te_blocksize_bits env) 1 :: 64 word)
      in if ti_snapshot_list inode then s
         else if \<not> next3_can_truncate env inode then out_notrans s
         else
           (let s = (if ti_size inode = 0 \<and> te_should_writeback_data env
                     then s\<lparr>ts_inode := inode\<lparr>ti_flush_on_close := True\<rparr>\<rparr> else s);
                page = (ti_size inode AND (blocksize - 1) \<noteq> 0)
            in if page \<and> \<not> te_grab_cache_page env then out_notrans s
               else
                 (case fst (start_transaction (te_journal_start env) (te_max_trans_data env)
                              (te_data_trans_blocks env) (ti_blocks inode)
                              (te_blocksize_bits env)) of
                    Inl e \<Rightarrow> out_notrans s
                  | Inr handle \<Rightarrow>
                      (let last_block = drop_bit (te_blocksize_bits env)
                                          (ti_size inode + blocksize - 1);
                           s = (if page then te_block_truncate_page env s else s);
                           path = next3_block_to_path (te_blocksize_bits env - 2) (te_ntind env)
                                    (ti_snapshot_file inode) (ucast last_block)
                       in if depth path = 0 then out_stop s
                          else
                            (case te_orphan_add env of
                               Some e \<Rightarrow> out_stop s
                             | None \<Rightarrow>
                                 (let s = s\<lparr>ts_orphan := True\<rparr>;
                                      s = s\<lparr>ts_inode := (ts_inode s)
                                                 \<lparr>ti_disksize := ti_size (ts_inode s)\<rparr>\<rparr>;
                                      s = te_free_tree env (depth path) (offsets path) s
                                  in out_stop s))))))"

text \<open>
  Worked example: 1 KiB blocks; a fast symbolic link (no data block, no xattr block) and
  an append-only regular file of three blocks, both with one link and on the orphan
  list; an environment in which everything succeeds and the tree part would drop all
  slots and report block 500 freed.
\<close>

definition fast_symlink :: tinode where
  "fast_symlink = \<lparr>ti_type = S_IFLNK, ti_append = False, ti_immutable = False, ti_size = 9,
                    ti_disksize = 9, ti_blocks = 0, ti_file_acl = 0,
                    ti_data = [1953719668, 1936876893, 116, 0, 0, 0, 0, 0, 0, 0, 0, 0, 0, 0, 0],
                    ti_nlink = 1, ti_snapshot_list = False, ti_snapshot_file = False,
                    ti_flush_on_close = False\<rparr>"

definition append_only_file :: tinode where
  "append_only_file = \<lparr>ti_type = S_IFREG, ti_append = True, ti_immutable = False, ti_size = 0,
                        ti_disksize = 3072, ti_blocks = 6, ti_file_acl = 0,
                        ti_data = [500, 501, 502, 0, 0, 0, 0, 0, 0, 0, 0, 0, 0, 0, 0],
                        ti_nlink = 1, ti_snapshot_list = False, ti_snapshot_file = False,
                        ti_flush_on_close = False\<rparr>"

definition drop_all_slots :: "nat \<Rightarrow> nat list \<Rightarrow> truncate_state \<Rightarrow> truncate_state" where
  "drop_all_slots n offs s =
     s\<lparr>ts_inode := (ts_inode s)\<lparr>ti_data := replicate 15 0, ti_blocks := 0\<rparr>,
       ts_freed := ts_freed s @ [(500, 3)]\<rparr>"

definition keep_state :: "truncate_state \<Rightarrow> truncate_state" where
  "keep_state s = s"

definition journal_ok :: "int \<Rightarrow> int + nat" where
  "journal_ok nblocks = Inr 1"

definition example_truncate_env :: truncate_env where
  "example_truncate_env = \<lparr>te_blocksize_bits = 10, te_ntind = 4, te_max_trans_data = 64,
                            te_data_trans_blocks = 30, te_should_writeback_data = False,
                            te_grab_cache_page = True, te_journal_start = journal_ok,
                            te_orphan_add = None, te_block_truncate_page = keep_state,
                            te_free_tree = drop_all_slots\<rparr>"

section \<open>Building a branch: \<open>next3_alloc_blocks\<close>, \<open>next3_alloc_branch_cow\<close> and \<open>next3_splice_branch_cow\<close> (fs/next3/inode.c)\<close>

text \<open>
  The functions are modelled with \<open>CONFIG_NEXT3_FS_SNAPSHOT_BLOCK_MOVE\<close>,
  \<open>CONFIG_NEXT3_FS_SNAPSHOT_JOURNAL_BYPASS\<close> and \<open>CONFIG_NEXT3_FS_SNAPSHOT_HOOKS_JBD\<close>.
  The command is one of the \<open>SNAPMAP_\<close> values; \<open>SNAPMAP_ISMOVE\<close> and
  \<open>SNAPMAP_ISSYNC\<close> test the bit that only \<open>SNAPMAP_MOVE\<close> and only
  \<open>SNAPMAP_BITMAP\<close> carry.
\<close>

datatype snapmap = SNAPMAP_READ | SNAPMAP_WRITE | SNAPMAP_COW | SNAPMAP_MOVE | SNAPMAP_BITMAP

definition SNAPMAP_ISMOVE :: "snapmap \<Rightarrow> bool" where
  "SNAPMAP_ISMOVE cmd = (cmd = SNAPMAP_MOVE)"

definition SNAPMAP_ISSYNC :: "snapmap \<Rightarrow> bool" where
  "SNAPMAP_ISSYNC cmd = (cmd = SNAPMAP_BITMAP)"

text \<open>
  The calls that leave the three functions, in the order they are made.  A buffer head
  is named by its block number.
\<close>

datatype journal_op =
    New_blocks "64 word" nat
  | Free_blocks "64 word" nat
  | Getblk "64 word"
  | Get_create_access "64 word"
  | Get_write_access "64 word"
  | Dirty_metadata "64 word"
  | Sync_dirty_buffer "64 word"
  | Journal_forget "64 word"
  | Mark_inode_dirty

text \<open>
  An \<open>Indirect\<close> triple whose \<open>bh\<close> is a reference: the block number of the buffer, or
  \<open>None\<close> for \<open>NULL\<close>, when \<open>p\<close> points into the inode's \<open>i_data\<close>.  \<open>p\<close> is the index
  of the slot.
\<close>

record Indirect_ref =
  ref_p :: nat
  ref_key :: "32 word"
  ref_bh :: "64 word option"

text \<open>
  The state: the inode's slots, the data of every buffer by block number, the quota
  charged to each inode, the allocation info of the inode and the log of calls.
\<close>

record alloc_state =
  as_i_data :: "32 word list"
  as_buffers :: "64 word \<Rightarrow> 32 word list"
  as_quota :: "nat \<Rightarrow> int"
  as_block_alloc_info :: "block_alloc_info option"
  as_log :: "journal_op list"

text \<open>
  The environment: the number of slots of a block, the macro \<open>SNAPSHOT_BLOCK\<close> of
  next3's \<open>snapshot.h\<close> (which is not among the sources), the answers of the block
  allocator, one for each call, and the results of the journal calls for each buffer.
\<close>

record alloc_env =
  ae_addr_per_block :: nat
  ae_snapshot_block :: "64 word \<Rightarrow> 64 word"
  ae_new_blocks :: "(errno + 64 word \<times> nat) list"
  ae_get_create_access :: "64 word \<Rightarrow> errno option"
  ae_get_write_access :: "64 word \<Rightarrow> errno option"
  ae_dirty_metadata :: "64 word \<Rightarrow> errno option"

definition journal :: "journal_op list \<Rightarrow> alloc_state \<Rightarrow> alloc_state" where
  "journal ops s = s\<lparr>as_log := as_log s @ ops\<rparr>"

text \<open>
  \<open>next3_new_blocks\<close> is defined in \<open>balloc.c\<close>, which is not among the sources.
  Modelled from the spec: \<open>new_blocks(goal, count)\<close> gives a first block and a count,
  and the allocator may return fewer blocks than were asked for; so the answer of the
  environment is cut to the count requested.
\<close>

definition next3_new_blocks :: "(errno + 64 word \<times> nat) \<Rightarrow> nat \<Rightarrow> errno + 64 word \<times> nat" where
  "next3_new_blocks answer count =
     (case answer of Inl e \<Rightarrow> Inl e | Inr (first, granted) \<Rightarrow> Inr (first, min granted count))"

subsection \<open>\<open>next3_alloc_blocks\<close>\<close>

text \<open>
  The inner loop
  \<open>while (index < indirect_blks && count) { new_blocks[index++] = current_block++; count--; }\<close>.
\<close>

fun take_indirect :: "nat \<Rightarrow> 64 word list \<Rightarrow> nat \<Rightarrow> 64 word \<Rightarrow> nat \<Rightarrow> 64 word list \<times> nat \<times> 64 word \<times> nat" where
  "take_indirect indirect_blks new_blocks index current_block count =
     (if index < indirect_blks \<and> count \<noteq> 0
      then take_indirect indirect_blks (new_blocks[index := current_block]) (index + 1)
             (current_block + 1) (count - 1)
      else (new_blocks, index, current_block, count))"

declare take_indirect.simps [simp del]

text \<open>
  The loop \<open>while (1)\<close>, one round for each answer of the allocator.  Because an answer
  never exceeds the request, \<open>target\<close> and \<open>count\<close> stay non-negative and are natural
  numbers here.  The label \<open>failed_out\<close> frees \<open>new_blocks[0 .. index)\<close> one by one.  The
  result is \<open>*err\<close>, the return value, \<open>new_blocks\<close> and the state.
\<close>

fun alloc_blocks_loop :: "(errno + 64 word \<times> nat) list \<Rightarrow> nat \<Rightarrow> nat \<Rightarrow> nat \<Rightarrow> 64 word list \<Rightarrow> nat \<Rightarrow> alloc_state \<Rightarrow> (errno option \<times> nat \<times> 64 word list \<times> alloc_state) run" where
  "alloc_blocks_loop [] indirect_blks blks target new_blocks index s = No_answer"
| "alloc_blocks_loop (a # answers) indirect_blks blks target new_blocks index s =
     (case next3_new_blocks a target of
        Inl e \<Rightarrow>
          Done (Some e, 0, new_blocks,
                journal (map (\<lambda>b. Free_blocks b 1) (take index new_blocks)) s)
      | Inr (first, count) \<Rightarrow>
          (let s = journal [New_blocks first count] s;
               target = target - count;
               (new_blocks, index, current_block, count) =
                  take_indirect indirect_blks new_blocks index first count
           in if blks = 0 \<and> target = 0 then Done (None, 0, new_blocks, s)
              else if count > 0
                   then Done (None, count, new_blocks[index := current_block], s)
                   else alloc_blocks_loop answers indirect_blks blks target new_blocks index s))"

definition next3_alloc_blocks :: "alloc_env \<Rightarrow> nat \<Rightarrow> nat \<Rightarrow> 64 word list \<Rightarrow> alloc_state \<Rightarrow> (errno option \<times> nat \<times> 64 word list \<times> alloc_state) run" where
  "next3_alloc_blocks env indirect_blks blks new_blocks s =
     alloc_blocks_loop (ae_new_blocks env) indirect_blks blks (blks + indirect_blks) new_blocks 0 s"

subsection \<open>\<open>next3_alloc_branch_cow\<close>\<close>

text \<open>
  The end of the chain: \<open>for (i=1; i < num; i++) *(branch[n].p + i) = cpu_to_le32(++current_block)\<close>.
  The caller asks for no more blocks than there are slots up to the end of the block, so
  every index is inside the data.
\<close>

definition fill_leaf_slots :: "nat \<Rightarrow> 64 word \<Rightarrow> nat \<Rightarrow> 32 word list \<Rightarrow> 32 word list" where
  "fill_leaf_slots pos current_block num data =
     fold (\<lambda>i d. d[pos + i := ucast (current_block + word_of_nat i)]) [1 ..< num] data"

text \<open>
  The body of the loop \<open>for (n = 1; n <= indirect_blks; n++)\<close>: get the buffer of the
  new indirect block, ask the journal for create access unless the journal is bypassed,
  zero the data, set the pointer to the next block of the chain and, in the last block,
  the pointers to the other data blocks, then write the buffer out or hand it to the
  journal.  The result is \<open>err\<close>, the branch and the state.
\<close>

definition alloc_branch_step :: "alloc_env \<Rightarrow> snapmap \<Rightarrow> nat \<Rightarrow> nat \<Rightarrow> nat list \<Rightarrow> 64 word list \<Rightarrow> nat \<Rightarrow> Indirect_ref list \<Rightarrow> alloc_state \<Rightarrow> errno option \<times> Indirect_ref list \<times> alloc_state" where
  "alloc_branch_step env cmd indirect_blks num offs new_blocks n branch s =
     (let bh = new_blocks ! (n - 1);
          s = journal [Getblk bh] s;
          branch = branch[n := (branch ! n)\<lparr>ref_bh := Some bh\<rparr>];
          (err, s) = (if \<not> SNAPMAP_ISSYNC cmd
                      then (ae_get_create_access env bh, journal [Get_create_access bh] s)
                      else (None, s))
      in case err of
           Some e \<Rightarrow> (Some e, branch, s)
         | None \<Rightarrow>
             (let data = replicate (ae_addr_per_block env) 0;
                  branch = branch[n := (branch ! n)\<lparr>ref_p := offs ! n,
                                                    ref_key := ucast (new_blocks ! n)\<rparr>];
                  data = data[offs ! n := ucast (new_blocks ! n)];
                  data = (if n = indirect_blks
                          then fill_leaf_slots (offs ! n) (new_blocks ! n) num data
                          else data);
                  s = s\<lparr>as_buffers := (as_buffers s)(bh := data)\<rparr>
              in if SNAPMAP_ISSYNC cmd
                 then (None, branch, journal [Sync_dirty_buffer bh] s)
                 else (ae_dirty_metadata env bh, branch, journal [Dirty_metadata bh] s)))"

text \<open>
  The loop.  The result is \<open>err\<close>, the value of \<open>n\<close> when the loop is left, the branch
  and the state.
\<close>

function alloc_branch_loop :: "alloc_env \<Rightarrow> snapmap \<Rightarrow> nat \<Rightarrow> nat \<Rightarrow> nat list \<Rightarrow> 64 word list \<Rightarrow> nat \<Rightarrow> Indirect_ref list \<Rightarrow> alloc_state \<Rightarrow> errno option \<times> nat \<times> Indirect_ref list \<times> alloc_state" where
  "alloc_branch_loop env cmd indirect_blks num offs new_blocks n branch s =
     (if n \<le> indirect_blks then
        (case alloc_branch_step env cmd indirect_blks num offs new_blocks n branch s of
           (Some e, branch, s) \<Rightarrow> (Some e, n, branch, s)
         | (None, branch, s) \<Rightarrow>
             alloc_branch_loop env cmd indirect_blks num offs new_blocks (n + 1) branch s)
      else (None, n, branch, s))"
  by pat_completeness auto

termination alloc_branch_loop
  by (relation "measure (\<lambda>(env, cmd, indirect_blks, num, offs, new_blocks, n, branch, s).
                           Suc indirect_blks - n)") auto

declare alloc_branch_loop.simps [simp del]

text \<open>\<open>next3_journal_forget\<close> on the buffer of a triple.\<close>

definition forget_op :: "Indirect_ref \<Rightarrow> journal_op list" where
  "forget_op r = (case ref_bh r of Some b \<Rightarrow> [Journal_forget b] | None \<Rightarrow> [])"

text \<open>
  The label \<open>failed\<close> of \<open>next3_alloc_branch_cow\<close>: forget \<open>branch[1 .. n]\<close> unless the
  journal is bypassed, free the indirect blocks one by one, then refund the quota (move)
  or free the run of data blocks.
\<close>

definition alloc_branch_failed :: "snapmap \<Rightarrow> nat \<Rightarrow> nat \<Rightarrow> nat \<Rightarrow> 64 word list \<Rightarrow> nat \<Rightarrow> Indirect_ref list \<Rightarrow> alloc_state \<Rightarrow> alloc_state" where
  "alloc_branch_failed cmd ino indirect_blks num new_blocks n branch s =
     (let s = (if \<not> SNAPMAP_ISSYNC cmd
               then journal (concat (map (\<lambda>i. forget_op (branch ! i)) [1 ..< Suc n])) s
               else s);
          s = journal (map (\<lambda>i. Free_blocks (new_blocks ! i) 1) [0 ..< indirect_blks]) s
      in if SNAPMAP_ISMOVE cmd \<and> num > 0
         then s\<lparr>as_quota := dquot_free_block ino (int num) (as_quota s)\<rparr>
         else if num > 0 then journal [Free_blocks (new_blocks ! indirect_blks) num] s
         else s)"

text \<open>
  The first part of \<open>next3_alloc_branch_cow\<close>, which fills the local array
  \<open>new_blocks[4]\<close> and sets \<open>num\<close>.  In a move only the indirect blocks are allocated,
  the data blocks are the blocks \<open>SNAPSHOT_BLOCK(iblock)\<close> on, and the owner of the
  snapshot file is charged for them; otherwise \<open>next3_alloc_blocks\<close> allocates both.
  The array starts as zeros; every entry that is read has been written before.  The
  result is \<open>err\<close>, \<open>num\<close>, \<open>new_blocks\<close> and the state.
\<close>

definition alloc_branch_blocks :: "alloc_env \<Rightarrow> nat \<Rightarrow> 64 word \<Rightarrow> nat \<Rightarrow> nat \<Rightarrow> snapmap \<Rightarrow> alloc_state \<Rightarrow> (errno option \<times> nat \<times> 64 word list \<times> alloc_state) run" where
  "alloc_branch_blocks env ino iblock indirect_blks blks cmd s =
     (let new_blocks = replicate 4 0
      in if SNAPMAP_ISMOVE cmd then
           (case (if indirect_blks > 0
                  then next3_alloc_blocks env indirect_blks 0 new_blocks s
                  else Done (None, 0, new_blocks, s)) of
              Done (None, r, new_blocks, s) \<Rightarrow>
                Done (None, blks,
                      new_blocks[indirect_blks := ae_snapshot_block env iblock],
                      s\<lparr>as_quota := dquot_alloc_block_nofail ino (int blks) (as_quota s)\<rparr>)
            | other \<Rightarrow> other)
         else next3_alloc_blocks env indirect_blks blks new_blocks s)"

text \<open>
  \<open>next3_alloc_branch_cow\<close>.  \<open>ino\<close> is the number of \<open>inode\<close>, \<open>offs\<close> and \<open>branch\<close> are
  the arrays \<open>offsets\<close> and \<open>branch\<close> from the position the caller passes.  The \<open>goal\<close>
  only reaches the allocator.  The result is the error, if any, the value left in
  \<open>*blks\<close>, the branch and the state.
\<close>

definition next3_alloc_branch_cow :: "alloc_env \<Rightarrow> nat \<Rightarrow> 64 word \<Rightarrow> nat \<Rightarrow> nat \<Rightarrow> nat list \<Rightarrow> Indirect_ref list \<Rightarrow> snapmap \<Rightarrow> alloc_state \<Rightarrow> (errno option \<times> nat \<times> Indirect_ref list \<times> alloc_state) run" where
  "next3_alloc_branch_cow env ino iblock indirect_blks blks offs branch cmd s =
     (case alloc_branch_blocks env ino iblock indirect_blks blks cmd s of
        No_answer \<Rightarrow> No_answer
      | Bug_on \<Rightarrow> Bug_on
      | Done (Some e, num, new_blocks, s) \<Rightarrow> Done (Some e, blks, branch, s)
      | Done (None, num, new_blocks, s) \<Rightarrow>
          (let branch = branch[0 := (branch ! 0)\<lparr>ref_key := ucast (new_blocks ! 0)\<rparr>]
           in case alloc_branch_loop env cmd indirect_blks num offs new_blocks 1 branch s of
                (None, n, branch, s) \<Rightarrow> Done (None, num, branch, s)
              | (Some e, n, branch, s) \<Rightarrow>
                  Done (Some e, blks, branch,
                        alloc_branch_failed cmd ino indirect_blks num new_blocks n branch s)))"

subsection \<open>\<open>next3_splice_branch_cow\<close>\<close>

text \<open>A store through the pointer \<open>where->p + i\<close>: into the parent buffer or into \<open>i_data\<close>.\<close>

definition store_slot :: "Indirect_ref \<Rightarrow> nat \<Rightarrow> 32 word \<Rightarrow> alloc_state \<Rightarrow> alloc_state" where
  "store_slot w i v s =
     (case ref_bh w of
        None \<Rightarrow> s\<lparr>as_i_data := (as_i_data s)[ref_p w + i := v]\<rparr>
      | Some b \<Rightarrow> s\<lparr>as_buffers := (as_buffers s)(b := (as_buffers s b)[ref_p w + i := v])\<rparr>)"

text \<open>The label \<open>err_out\<close>.  \<open>chain\<close> is the array \<open>where\<close>.\<close>

definition splice_err_out :: "snapmap \<Rightarrow> nat \<Rightarrow> Indirect_ref list \<Rightarrow> nat \<Rightarrow> nat \<Rightarrow> alloc_state \<Rightarrow> alloc_state" where
  "splice_err_out cmd ino chain num blks s =
     (let s = journal (concat (map (\<lambda>i. (if \<not> SNAPMAP_ISSYNC cmd then forget_op (chain ! i) else [])
                                         @ [Free_blocks (ucast (ref_key (chain ! (i - 1)))) 1])
                                [1 ..< Suc num])) s
      in if SNAPMAP_ISMOVE cmd
         then s\<lparr>as_quota := dquot_free_block ino (int blks) (as_quota s)\<rparr>
         else journal [Free_blocks (ucast (ref_key (chain ! num))) blks] s)"

definition next3_splice_branch_cow :: "alloc_env \<Rightarrow> nat \<Rightarrow> 64 word \<Rightarrow> Indirect_ref list \<Rightarrow> nat \<Rightarrow> nat \<Rightarrow> snapmap \<Rightarrow> alloc_state \<Rightarrow> errno option \<times> alloc_state" where
  "next3_splice_branch_cow env ino block chain num blks cmd s =
     (let w = chain ! 0;
          (err, s) = (case ref_bh w of
                        Some b \<Rightarrow> (ae_get_write_access env b, journal [Get_write_access b] s)
                      | None \<Rightarrow> (None, s))
      in case err of
           Some e \<Rightarrow> (Some e, splice_err_out cmd ino chain num blks s)
         | None \<Rightarrow>
             (let s = store_slot w 0 (ref_key w) s;
                  s = (if num = 0 \<and> blks > 1
                       then fold (\<lambda>i. store_slot w i (ref_key w + word_of_nat i)) [1 ..< blks] s
                       else s);
                  block_i = (if SNAPMAP_ISMOVE cmd then None else as_block_alloc_info s);
                  s = (case block_i of
                         None \<Rightarrow> s
                       | Some bi \<Rightarrow>
                           s\<lparr>as_block_alloc_info :=
                               Some \<lparr>last_alloc_logical_block = ucast (block + word_of_nat blks - 1),
                                     last_alloc_physical_block =
                                       ucast (ref_key (chain ! num) + word_of_nat blks - 1)\<rparr>\<rparr>);
                  s = journal [Mark_inode_dirty] s
              in case ref_bh w of
                   None \<Rightarrow> (None, s)
                 | Some b \<Rightarrow>
                     (case ae_dirty_metadata env b of
                        Some e \<Rightarrow>
                          (Some e, splice_err_out cmd ino chain num blks
                                     (journal [Dirty_metadata b] s))
                      | None \<Rightarrow> (None, journal [Dirty_metadata b] s))))"

subsection \<open>What a failed call leaves behind\<close>

text \<open>
  The calls logged between two states, the blocks the allocator granted and the blocks
  freed among them (each run written out block by block), the new buffers obtained with
  \<open>sb_getblk\<close> and the buffers forgotten.
\<close>

definition logged :: "alloc_state \<Rightarrow> alloc_state \<Rightarrow> journal_op list" where
  "logged s s' = drop (length (as_log s)) (as_log s')"

definition blocks_run :: "64 word \<Rightarrow> nat \<Rightarrow> 64 word list" where
  "blocks_run first n = map (\<lambda>i. first + word_of_nat i) [0 ..< n]"

fun granted_by :: "journal_op \<Rightarrow> 64 word list" where
  "granted_by (New_blocks b n) = blocks_run b n"
| "granted_by other = []"

fun freed_by :: "journal_op \<Rightarrow> 64 word list" where
  "freed_by (Free_blocks b n) = blocks_run b n"
| "freed_by other = []"

fun created_by :: "journal_op \<Rightarrow> 64 word list" where
  "created_by (Getblk b) = [b]"
| "created_by other = []"

fun forgotten_by :: "journal_op \<Rightarrow> 64 word list" where
  "forgotten_by (Journal_forget b) = [b]"
| "forgotten_by other = []"

definition granted :: "journal_op list \<Rightarrow> 64 word list" where
  "granted ops = concat (map granted_by ops)"

definition freed :: "journal_op list \<Rightarrow> 64 word list" where
  "freed ops = concat (map freed_by ops)"

definition created :: "journal_op list \<Rightarrow> 64 word list" where
  "created ops = concat (map created_by ops)"

definition forgotten :: "journal_op list \<Rightarrow> 64 word list" where
  "forgotten ops = concat (map forgotten_by ops)"

text \<open>
  \<open>released\<close>: every block granted during the call was freed again, and the quota of
  every inode is what it was.  \<open>untouched\<close>: the slots of the inode are what they were,
  and so is the data of every buffer other than those of the blocks granted during the
  call (fresh blocks, which nothing reachable from the inode points to).
\<close>

definition released :: "alloc_state \<Rightarrow> alloc_state \<Rightarrow> bool" where
  "released s s' = (freed (logged s s') = granted (logged s s') \<and> as_quota s' = as_quota s)"

definition all_forgotten :: "alloc_state \<Rightarrow> alloc_state \<Rightarrow> bool" where
  "all_forgotten s s' = (forgotten (logged s s') = created (logged s s'))"

definition untouched :: "alloc_state \<Rightarrow> alloc_state \<Rightarrow> bool" where
  "untouched s s' = (as_i_data s' = as_i_data s
                     \<and> (\<forall>b. b \<notin> set (granted (logged s s')) \<longrightarrow> as_buffers s' b = as_buffers s b))"

text \<open>
  The journal gives write access to the parent block of the branch and then refuses to
  take that block as dirty: the one failure of \<open>next3_splice_branch_cow\<close> that comes
  after the store through \<open>where->p\<close>.
\<close>

definition splice_dirty_fails :: "alloc_env \<Rightarrow> Indirect_ref list \<Rightarrow> bool" where
  "splice_dirty_fails env branch =
     (case ref_bh (branch ! 0) of
        None \<Rightarrow> False
      | Some b \<Rightarrow> ae_get_write_access env b = None \<and> ae_dirty_metadata env b \<noteq> None)"

text \<open>The allocator hands out block numbers of 32 bits, which is what a slot holds.\<close>

definition answer_fits :: "(errno + 64 word \<times> nat) \<Rightarrow> bool" where
  "answer_fits a = (case a of Inl e \<Rightarrow> True | Inr (first, n) \<Rightarrow> unat first + n \<le> 2 ^ 32)"

text \<open>
  Worked example: 1 KiB blocks (256 slots); the inode's double indirect slot points to
  block 300, whose slot 5 is a hole; the allocator grants blocks 600 and 601 in one
  answer; the journal refuses write access to block 300 with \<open>EROFS\<close>.
\<close>

definition no_buffer_data :: "64 word \<Rightarrow> 32 word list" where
  "no_buffer_data b = (if b = 300 then replicate 256 0 else [])"

definition branch_state :: alloc_state where
  "branch_state = \<lparr>as_i_data = [0, 0, 0, 0, 0, 0, 0, 0, 0, 0, 0, 0, 0, 300, 0],
                    as_buffers = no_buffer_data, as_quota = no_quota,
                    as_block_alloc_info = None, as_log = []\<rparr>"

definition journal_accepts :: "64 word \<Rightarrow> errno option" where
  "journal_accepts b = None"

definition journal_refuses_300 :: "64 word \<Rightarrow> errno option" where
  "journal_refuses_300 b = (if b = 300 then Some EROFS else None)"

definition branch_env :: alloc_env where
  "branch_env = \<lparr>ae_addr_per_block = 256, ae_snapshot_block = example_snapshot_block,
                  ae_new_blocks = [Inr (600, 2)],
                  ae_get_create_access = journal_accepts,
                  ae_get_write_access = journal_refuses_300,
                  ae_dirty_metadata = journal_accepts\<rparr>"

definition partial_chain :: "Indirect_ref list" where
  "partial_chain = [\<lparr>ref_p = 5, ref_key = 0, ref_bh = Some 300\<rparr>,
                    \<lparr>ref_p = 0, ref_key = 0, ref_bh = None\<rparr>,
                    \<lparr>ref_p = 0, ref_key = 0, ref_bh = None\<rparr>,
                    \<lparr>ref_p = 0, ref_key = 0, ref_bh = None\<rparr>]"

text \<open>
  \<open>alloc_then_splice\<close> is the sequence of the two calls in \<open>next3_get_blocks_handle\<close>:
  the branch is allocated and, when that succeeded, spliced with the count left in
  \<open>*blks\<close>.  The result is the error of the call that failed, if any, and the state.
\<close>

definition alloc_then_splice :: "alloc_env \<Rightarrow> nat \<Rightarrow> 64 word \<Rightarrow> nat \<Rightarrow> nat \<Rightarrow> nat list \<Rightarrow> Indirect_ref list \<Rightarrow> snapmap \<Rightarrow> alloc_state \<Rightarrow> (errno option \<times> alloc_state) run" where
  "alloc_then_splice env ino iblock indirect_blks blks offs branch cmd s =
     (case next3_alloc_branch_cow env ino iblock indirect_blks blks offs branch cmd s of
        No_answer \<Rightarrow> No_answer
      | Bug_on \<Rightarrow> Bug_on
      | Done (Some e, count, branch, s) \<Rightarrow> Done (Some e, s)
      | Done (None, count, branch, s) \<Rightarrow>
          Done (next3_splice_branch_cow env ino iblock branch indirect_blks count cmd s))"

section \<open>Properties of the path resolver\<close>

subsection \<open>Unsigned 32-bit arithmetic read as natural numbers\<close>

lemma unat_2p32: "b < 32 \<Longrightarrow> unat (2 ^ b :: 32 word) = 2 ^ b"
proof -
  assume b: "b < 32"
  have lt: "(2::nat) ^ b < 2 ^ 32" using b by (rule power_strict_increasing) simp
  have "(2 ^ b :: 32 word) = of_nat (2 ^ b)" by simp
  then have "unat (2 ^ b :: 32 word) = (2 ^ b) mod 2 ^ 32"
    by (simp only: unat_of_nat) simp
  then show ?thesis using lt by simp
qed

lemma unat_and_ptrs: "unat ((w :: 32 word) AND (2 ^ b - 1)) = unat w mod 2 ^ b"
proof -
  have "(2 ^ b - 1 :: 32 word) = mask b"
    by (simp add: mask_eq_exp_minus_1)
  then have "w AND (2 ^ b - 1) = take_bit b w"
    by (simp add: take_bit_eq_mask)
  then show ?thesis
    by (simp add: unsigned_take_bit_eq take_bit_nat_def)
qed

lemma unat_drop: "unat (drop_bit k (w :: 32 word)) = unat w div 2 ^ k"
  by (simp add: unat_drop_bit_eq drop_bit_nat_def)

lemma sint_small: "unat (w :: 32 word) < 2 ^ 31 \<Longrightarrow> sint w = int (unat w)"
proof -
  assume a: "unat w < 2 ^ 31"
  then have "int (unat w) < 2 ^ 31" by (metis of_nat_less_iff of_nat_numeral of_nat_power)
  then have lt: "uint w < 2 ^ 31" by simp
  have ge: "- (2 ^ 31) \<le> uint w"
    by (rule order_trans [of _ 0]) simp_all
  have "signed_take_bit 31 (uint w) = uint w"
    using ge lt by (rule signed_take_bit_int_eq_self)
  moreover have "sint w = signed_take_bit 31 (uint w)"
    by (simp add: sint_uint)
  ultimately show ?thesis by simp
qed

lemma unat_sub32: "unat (y :: 32 word) \<le> unat x \<Longrightarrow> unat (x - y) = unat x - unat y"
  by (simp add: unat_sub word_le_nat_alt)

lemma boundary_value:
  assumes f: "0 < unat final" "unat final \<le> 2 ^ 31"
      and x: "unat (i AND (2 ^ b - 1)) < unat final"
  shows "sint (final - 1 - ((i :: 32 word) AND (2 ^ b - 1)))
           = int (unat final) - 1 - int (unat i mod 2 ^ b)"
proof -
  let ?x = "i AND (2 ^ b - 1)"
  have one: "unat (1 :: 32 word) = 1" by simp
  have s1: "unat (final - 1) = unat final - 1"
    using f(1) by (simp add: unat_sub32)
  have s2: "unat (final - 1 - ?x) = unat final - 1 - unat ?x"
    using x s1 by (simp add: unat_sub32)
  have "unat (final - 1 - ?x) < 2 ^ 31"
    using s2 f by simp
  then have "sint (final - 1 - ?x) = int (unat (final - 1 - ?x))"
    by (rule sint_small)
  also have "\<dots> = int (unat final) - 1 - int (unat ?x)"
    using s2 x f(1) by (simp add: of_nat_diff)
  finally show ?thesis
    by (simp only: unat_and_ptrs)
qed

subsection \<open>The ranges of the logical block space\<close>

lemmas slot_defs = NEXT3_NDIR_BLOCKS_def NEXT3_IND_BLOCK_def NEXT3_DIND_BLOCK_def NEXT3_TIND_BLOCK_def

lemma pow_le31: "b < 32 \<Longrightarrow> (2::nat) ^ b \<le> 2 ^ 31"
  by (rule power_increasing) simp_all

lemma boundary_ptrs:
  assumes "b < 32"
  shows "sint ((2 ^ b :: 32 word) - 1 - (w AND (2 ^ b - 1))) = int (2 ^ b) - 1 - int (unat w mod 2 ^ b)"
proof -
  have "sint ((2 ^ b :: 32 word) - 1 - (w AND (2 ^ b - 1))) = int (unat (2 ^ b :: 32 word)) - 1 - int (unat w mod 2 ^ b)"
  proof (rule boundary_value)
    show "0 < unat (2 ^ b :: 32 word)" using assms by (simp only: unat_2p32) simp
    show "unat (2 ^ b :: 32 word) \<le> 2 ^ 31" using assms by (simp only: unat_2p32 pow_le31)
    show "unat (w AND 2 ^ b - 1) < unat (2 ^ b :: 32 word)" using assms by (simp only: unat_2p32 unat_and_ptrs) simp
  qed
  then show ?thesis using assms by (simp only: unat_2p32)
qed

lemma path_direct:
  assumes "unat i < 12"
  shows "depth (next3_block_to_path b nt sf i) = 1"
    and "offsets (next3_block_to_path b nt sf i) = [unat i]"
  using assms
  by (simp_all add: next3_block_to_path_def path_result_def slot_defs Let_def word_less_nat_alt)

lemma path_direct_boundary:
  assumes "unat i < 12" "4 \<le> b" "b < 32"
  shows "boundary (next3_block_to_path b nt sf i) = 11 - int (unat i)"
proof -
  have "(2::nat) ^ 4 \<le> 2 ^ b" using assms(2) by (rule power_increasing) simp
  then have p: "16 \<le> (2::nat) ^ b" by simp
  then have m: "unat i mod 2 ^ b = unat i" using assms(1) by simp
  have "sint ((12 :: 32 word) - 1 - (i AND (2 ^ b - 1))) = int (unat (12 :: 32 word)) - 1 - int (unat i mod 2 ^ b)"
    by (rule boundary_value) (use assms(1) m in \<open>simp_all add: unat_and_ptrs\<close>)
  then show ?thesis using assms(1) m
    by (simp add: next3_block_to_path_def path_result_def slot_defs Let_def word_less_nat_alt)
qed

lemma path_ind:
  assumes "12 \<le> unat i" "unat i < 12 + 2 ^ b" "b < 32"
  shows "next3_block_to_path b nt sf i =
           \<lparr>depth = 2, offsets = [12, unat i - 12],
            boundary = int (2 ^ b) - 1 - int ((unat i - 12) mod 2 ^ b)\<rparr>"
proof -
  have i1: "unat (i - 12) = unat i - 12" using assms(1) by (simp add: unat_sub32)
  have lt: "unat (i - 12) < 2 ^ b" using assms i1 by simp
  show ?thesis using assms(1,3) lt i1
    by (simp add: next3_block_to_path_def path_result_def slot_defs Let_def word_less_nat_alt unat_2p32 boundary_ptrs)
qed

lemma path_dind:
  assumes lo: "12 + 2 ^ b \<le> unat i" and hi: "unat i < 12 + 2 ^ b + 2 ^ (b * 2)" and b: "b \<le> 15"
  shows "next3_block_to_path b nt sf i =
           \<lparr>depth = 3,
            offsets = [13, (unat i - 12 - 2 ^ b) div 2 ^ b, (unat i - 12 - 2 ^ b) mod 2 ^ b],
            boundary = int (2 ^ b) - 1 - int ((unat i - 12 - 2 ^ b) mod 2 ^ b)\<rparr>"
proof -
  have b32: "b < 32" "b * 2 < 32" using b by simp_all
  have i1: "unat (i - 12) = unat i - 12" using lo by (simp add: unat_sub32)
  have i2: "unat (i - 12 - 2 ^ b) = unat i - 12 - 2 ^ b"
    using lo i1 b32 by (simp add: unat_sub32 unat_2p32)
  have ge: "\<not> unat i < 12" "\<not> unat i - 12 < 2 ^ b" using lo by simp_all
  have lt: "unat i - 12 - 2 ^ b < 2 ^ (b * 2)" using lo hi by simp
  show ?thesis using ge lt i1 i2 b32
    by (simp add: next3_block_to_path_def path_result_def slot_defs Let_def word_less_nat_alt
                  unat_2p32 boundary_ptrs unat_drop unat_and_ptrs)
qed

lemma path_after_dind:
  assumes lo: "12 + 2 ^ b + 2 ^ (b * 2) \<le> unat (i :: 32 word)" and b: "b \<le> 15"
  shows "unat (i - 12 - 2 ^ b - 2 ^ (b * 2)) = unat i - 12 - 2 ^ b - 2 ^ (b * 2)"
    and "\<not> i < 12" and "\<not> i - 12 < 2 ^ b" and "\<not> i - 12 - 2 ^ b < 2 ^ (b * 2)"
proof -
  have b32: "b < 32" "b * 2 < 32" using b by simp_all
  have lo1: "12 \<le> unat i" "12 + 2 ^ b \<le> unat i" using lo by linarith+
  have i1: "unat (i - 12) = unat i - 12" using lo1(1) by (simp add: unat_sub32)
  have i2: "unat (i - 12 - 2 ^ b) = unat i - 12 - 2 ^ b"
    using lo1(2) i1 b32 by (simp add: unat_sub32 unat_2p32)
  show "unat (i - 12 - 2 ^ b - 2 ^ (b * 2)) = unat i - 12 - 2 ^ b - 2 ^ (b * 2)"
    using lo i2 b32 by (simp add: unat_sub32 unat_2p32)
  show "\<not> i < 12" using lo1(1) by (simp add: word_less_nat_alt)
  show "\<not> i - 12 < 2 ^ b" using lo1(2) i1 b32 by (simp add: word_less_nat_alt unat_2p32)
  show "\<not> i - 12 - 2 ^ b < 2 ^ (b * 2)" using lo i2 b32 by (simp add: word_less_nat_alt unat_2p32)
qed

lemma path_tind:
  assumes lo: "12 + 2 ^ b + 2 ^ (b * 2) \<le> unat i"
      and hi: "(unat i - 12 - 2 ^ b - 2 ^ (b * 2)) div 2 ^ (b * 2) < 2 ^ b" and b: "b \<le> 15"
  shows "next3_block_to_path b nt sf i =
           (let m = unat i - 12 - 2 ^ b - 2 ^ (b * 2) in
            \<lparr>depth = 4, offsets = [14, m div 2 ^ (b * 2), (m div 2 ^ b) mod 2 ^ b, m mod 2 ^ b],
             boundary = int (2 ^ b) - 1 - int (m mod 2 ^ b)\<rparr>)"
proof -
  have b32: "b < 32" using b by simp
  note f = path_after_dind [OF lo b]
  show ?thesis using f hi b32
    by (simp add: next3_block_to_path_def path_result_def slot_defs Let_def word_less_nat_alt
                  unat_2p32 boundary_ptrs unat_drop unat_and_ptrs)
qed

lemma path_out_of_range:
  assumes lo: "12 + 2 ^ b + 2 ^ (b * 2) \<le> unat i"
      and hi: "2 ^ b \<le> (unat i - 12 - 2 ^ b - 2 ^ (b * 2)) div 2 ^ (b * 2)" and b: "b \<le> 15"
      and sf: "sf \<longrightarrow> nt \<le> (unat i - 12 - 2 ^ b - 2 ^ (b * 2)) div 2 ^ (b * 3)"
  shows "depth (next3_block_to_path b nt sf i) = 0" "offsets (next3_block_to_path b nt sf i) = []"
proof -
  have b32: "b < 32" using b by simp
  note f = path_after_dind [OF lo b]
  show "depth (next3_block_to_path b nt sf i) = 0" using f hi b32 sf
    by (auto simp add: next3_block_to_path_def path_result_def slot_defs Let_def word_less_nat_alt
                  unat_2p32 unat_drop)
  show "offsets (next3_block_to_path b nt sf i) = []" using f hi b32 sf
    by (auto simp add: next3_block_to_path_def path_result_def slot_defs Let_def word_less_nat_alt
                  unat_2p32 unat_drop)
qed

lemma div_pow_iff: "(m::nat) div 2 ^ (b * 2) < 2 ^ b \<longleftrightarrow> m < 2 ^ (b * 3)"
proof -
  have "(2::nat) ^ (b * 3) = 2 ^ b * 2 ^ (b * 2)" by (simp add: power_add [symmetric])
  then show ?thesis by (simp add: div_less_iff_less_mult)
qed

lemma div_pow3_ge: "nt * 2 ^ (b * 3) \<le> (m::nat) \<Longrightarrow> nt \<le> m div 2 ^ (b * 3)"
  by (simp add: less_eq_div_iff_mult_less_eq)

text \<open>
  Claim C5.  \<open>next3_block_to_path\<close> partitions the logical block space: the first twelve
  blocks are direct (depth 1, the block number is the offset); the next \<open>p\<close> blocks go
  through the single indirect slot (depth 2); the next \<open>p\<^sup>2\<close> through the double indirect
  slot (depth 3); the next \<open>p\<^sup>3\<close> through the triple indirect slot (depth 4), where
  \<open>p = 2 ^ ptrs_bits\<close> is the number of addresses per block.  A block beyond the range of
  the tree (beyond the triple indirect tree of a regular file, beyond the last triple
  indirect root of a snapshot file) gives depth 0 and no offsets.  With 1 KiB blocks
  (\<open>ptrs_bits = 8\<close>) block 65804 resolves to depth 4 with offsets 14, 0, 0, 0.
\<close>

theorem resolve_partitions_block_space:
  fixes i :: "32 word"
  assumes b: "ptrs_bits \<le> 15"
  shows "(let p = 2 ^ ptrs_bits; n = unat i;
              r = next3_block_to_path ptrs_bits ntind snapshot_file i
          in (n < 12 \<longrightarrow> depth r = 1 \<and> offsets r = [n])
           \<and> (12 \<le> n \<and> n < 12 + p \<longrightarrow>
                 depth r = 2 \<and> offsets r = [NEXT3_IND_BLOCK, n - 12])
           \<and> (12 + p \<le> n \<and> n < 12 + p + p ^ 2 \<longrightarrow>
                 depth r = 3 \<and>
                 offsets r = [NEXT3_DIND_BLOCK, (n - 12 - p) div p, (n - 12 - p) mod p])
           \<and> (12 + p + p ^ 2 \<le> n \<and> n < 12 + p + p ^ 2 + p ^ 3 \<longrightarrow>
                 depth r = 4 \<and>
                 offsets r = [NEXT3_TIND_BLOCK, (n - 12 - p - p ^ 2) div p ^ 2,
                              ((n - 12 - p - p ^ 2) div p) mod p, (n - 12 - p - p ^ 2) mod p])
           \<and> (12 + p + p ^ 2 + p ^ 3 \<le> n \<and> \<not> snapshot_file \<longrightarrow>
                 depth r = 0 \<and> offsets r = [])
           \<and> (12 + p + p ^ 2 + p ^ 3 \<le> n \<and> 12 + p + p ^ 2 + ntind * p ^ 3 \<le> n \<longrightarrow>
                 depth r = 0 \<and> offsets r = []))
       \<and> next3_block_to_path 8 ntind snapshot_file 65804
           = \<lparr>depth = 4, offsets = [14, 0, 0, 0], boundary = 255\<rparr>"
proof -
  let ?p = "(2::nat) ^ ptrs_bits"
  let ?n = "unat i"
  let ?r = "next3_block_to_path ptrs_bits ntind snapshot_file i"
  have b32: "ptrs_bits < 32" using b by simp
  have p2: "?p ^ 2 = 2 ^ (ptrs_bits * 2)" by (simp add: power_mult [symmetric] mult.commute)
  have p3: "?p ^ 3 = 2 ^ (ptrs_bits * 3)" by (simp add: power_mult [symmetric] mult.commute)
  have c1: "?n < 12 \<longrightarrow> depth ?r = 1 \<and> offsets ?r = [?n]"
    by (simp add: path_direct)
  have c2: "12 \<le> ?n \<and> ?n < 12 + ?p \<longrightarrow> depth ?r = 2 \<and> offsets ?r = [NEXT3_IND_BLOCK, ?n - 12]"
    using b32 by (simp add: path_ind slot_defs)
  have c3: "12 + ?p \<le> ?n \<and> ?n < 12 + ?p + ?p ^ 2 \<longrightarrow> depth ?r = 3 \<and>
              offsets ?r = [NEXT3_DIND_BLOCK, (?n - 12 - ?p) div ?p, (?n - 12 - ?p) mod ?p]"
    unfolding p2 using b by (simp add: path_dind slot_defs)
  have c4: "12 + ?p + ?p ^ 2 \<le> ?n \<and> ?n < 12 + ?p + ?p ^ 2 + ?p ^ 3 \<longrightarrow> depth ?r = 4 \<and>
              offsets ?r = [NEXT3_TIND_BLOCK, (?n - 12 - ?p - ?p ^ 2) div ?p ^ 2,
                            ((?n - 12 - ?p - ?p ^ 2) div ?p) mod ?p, (?n - 12 - ?p - ?p ^ 2) mod ?p]"
  proof (intro impI, elim conjE)
    assume lo: "12 + ?p + ?p ^ 2 \<le> ?n" and hi: "?n < 12 + ?p + ?p ^ 2 + ?p ^ 3"
    have lo': "12 + ?p + 2 ^ (ptrs_bits * 2) \<le> ?n" using lo unfolding p2 .
    have "?n - 12 - ?p - 2 ^ (ptrs_bits * 2) < 2 ^ (ptrs_bits * 3)"
      using lo hi unfolding p2 p3 by linarith
    then have hi': "(?n - 12 - ?p - 2 ^ (ptrs_bits * 2)) div 2 ^ (ptrs_bits * 2) < ?p"
      by (simp only: div_pow_iff)
    show "depth ?r = 4 \<and>
              offsets ?r = [NEXT3_TIND_BLOCK, (?n - 12 - ?p - ?p ^ 2) div ?p ^ 2,
                            ((?n - 12 - ?p - ?p ^ 2) div ?p) mod ?p, (?n - 12 - ?p - ?p ^ 2) mod ?p]"
      unfolding p2 by (simp add: path_tind [OF lo' hi' b] Let_def slot_defs)
  qed
  have out: "depth ?r = 0 \<and> offsets ?r = []"
    if lo: "12 + ?p + ?p ^ 2 + ?p ^ 3 \<le> ?n"
      and sf: "snapshot_file \<longrightarrow> 12 + ?p + ?p ^ 2 + ntind * ?p ^ 3 \<le> ?n"
  proof -
    have lo': "12 + ?p + 2 ^ (ptrs_bits * 2) \<le> ?n" using lo unfolding p2 by linarith
    have "2 ^ (ptrs_bits * 3) \<le> ?n - 12 - ?p - 2 ^ (ptrs_bits * 2)"
      using lo unfolding p2 p3 by linarith
    then have hi': "?p \<le> (?n - 12 - ?p - 2 ^ (ptrs_bits * 2)) div 2 ^ (ptrs_bits * 2)"
      using div_pow_iff [of "?n - 12 - ?p - 2 ^ (ptrs_bits * 2)" ptrs_bits] by linarith
    have sf': "snapshot_file \<longrightarrow> ntind \<le> (?n - 12 - ?p - 2 ^ (ptrs_bits * 2)) div 2 ^ (ptrs_bits * 3)"
    proof
      assume snapshot_file
      then have "ntind * 2 ^ (ptrs_bits * 3) \<le> ?n - 12 - ?p - 2 ^ (ptrs_bits * 2)"
        using sf lo unfolding p2 p3 by linarith
      then show "ntind \<le> (?n - 12 - ?p - 2 ^ (ptrs_bits * 2)) div 2 ^ (ptrs_bits * 3)"
        by (rule div_pow3_ge)
    qed
    show ?thesis using path_out_of_range [OF lo' hi' b sf'] by simp
  qed
  have c5: "12 + ?p + ?p ^ 2 + ?p ^ 3 \<le> ?n \<and> \<not> snapshot_file \<longrightarrow> depth ?r = 0 \<and> offsets ?r = []"
    using out by blast
  have c6: "12 + ?p + ?p ^ 2 + ?p ^ 3 \<le> ?n \<and> 12 + ?p + ?p ^ 2 + ntind * ?p ^ 3 \<le> ?n \<longrightarrow>
              depth ?r = 0 \<and> offsets ?r = []"
    using out by blast
  have ex: "next3_block_to_path 8 ntind snapshot_file 65804
              = \<lparr>depth = 4, offsets = [14, 0, 0, 0], boundary = 255\<rparr>"
    by (simp add: next3_block_to_path_def path_result_def slot_defs Let_def)
  show ?thesis
    unfolding Let_def using c1 c2 c3 c4 c5 c6 ex by blast
qed

theorem resolve_partitions_block_space_witness:
  "(8::nat) \<le> 15
   \<and> depth (next3_block_to_path 8 4 False 5) = 1
   \<and> offsets (next3_block_to_path 8 4 False 5) = [5]
   \<and> offsets (next3_block_to_path 8 4 False 200) = [12, 188]
   \<and> offsets (next3_block_to_path 8 4 False 1000) = [13, 2, 220]
   \<and> offsets (next3_block_to_path 8 4 False 65804) = [14, 0, 0, 0]
   \<and> depth (next3_block_to_path 8 4 False 4294967295) = 0
   \<and> depth (next3_block_to_path 8 4 True 4294967295) = 0"
  using resolve_partitions_block_space [where ptrs_bits = 8 and i = 5 and ntind = 4 and snapshot_file = False]
        resolve_partitions_block_space [where ptrs_bits = 8 and i = 200 and ntind = 4 and snapshot_file = False]
        resolve_partitions_block_space [where ptrs_bits = 8 and i = 1000 and ntind = 4 and snapshot_file = False]
        resolve_partitions_block_space [where ptrs_bits = 8 and i = 65804 and ntind = 4 and snapshot_file = False]
        resolve_partitions_block_space [where ptrs_bits = 8 and i = 4294967295 and ntind = 4 and snapshot_file = False]
        resolve_partitions_block_space [where ptrs_bits = 8 and i = 4294967295 and ntind = 4 and snapshot_file = True]
  by (simp add: Let_def slot_defs)

subsection \<open>The boundary\<close>

lemma boundary_general:
  assumes "4 \<le> b" "b \<le> 15" "0 < depth (next3_block_to_path b nt sf i)"
  shows "boundary (next3_block_to_path b nt sf i)
           = int (deepest_block_slots b (next3_block_to_path b nt sf i)) - 1
             - int (last (offsets (next3_block_to_path b nt sf i)))"
proof -
  have b32: "b < 32" using assms(2) by simp
  have m: "\<And>w :: 32 word. w < 2 ^ b \<Longrightarrow> unat w mod 2 ^ b = unat w"
    using b32 by (simp add: word_less_nat_alt unat_2p32)
  show ?thesis
  proof (cases "unat i < 12")
    case True
    then show ?thesis using assms(1) b32
      by (simp add: path_direct path_direct_boundary deepest_block_slots_def slot_defs)
  next
    case False
    then have "\<not> i < 12" by (simp add: word_less_nat_alt)
    then show ?thesis using assms(3) b32
      by (auto simp add: next3_block_to_path_def path_result_def slot_defs Let_def
            deepest_block_slots_def boundary_ptrs unat_and_ptrs m split: if_splits)
  qed
qed

lemma blks_scan_cap:
  "blks_scan slots pos blks btb count = Some c \<Longrightarrow> count \<le> btb + 1 \<Longrightarrow> c \<le> btb + 1 \<and> count \<le> c"
proof (induction slots pos blks btb count rule: blks_scan.induct)
  case (1 slots pos blks btb count)
  show ?case
  proof (cases "count < blks \<and> count \<le> btb")
    case True
    then show ?thesis using 1
      by (subst (asm) (2) blks_scan.simps) (auto split: if_splits)
  next
    case False
    then show ?thesis using 1
      by (subst (asm) (2) blks_scan.simps) (auto split: if_splits)
  qed
qed

lemma blks_scan_total:
  "pos + btb < length slots \<Longrightarrow> \<exists>c. blks_scan slots pos blks btb count = Some c"
proof (induction slots pos blks btb count rule: blks_scan.induct)
  case (1 slots pos blks btb count)
  then show ?case
    by (subst blks_scan.simps) auto
qed

lemma last_offset_in_block:
  assumes "b \<le> 15" "0 < depth (next3_block_to_path b nt sf i)"
  shows "last (offsets (next3_block_to_path b nt sf i))
           < deepest_block_slots b (next3_block_to_path b nt sf i)"
proof -
  have b32: "b < 32" using assms(1) by simp
  have m: "\<And>w :: 32 word. w < 2 ^ b \<Longrightarrow> unat w < 2 ^ b"
    using b32 by (simp add: word_less_nat_alt unat_2p32)
  show ?thesis
  proof (cases "unat i < 12")
    case True
    then show ?thesis
      by (simp add: path_direct deepest_block_slots_def slot_defs)
  next
    case False
    then have "\<not> i < 12" by (simp add: word_less_nat_alt)
    then show ?thesis using assms(2) b32
      by (auto simp add: next3_block_to_path_def path_result_def slot_defs Let_def
            deepest_block_slots_def unat_and_ptrs m split: if_splits)
  qed
qed

lemma ulong_of_small: "0 \<le> x \<Longrightarrow> x < 2 ^ 32 \<Longrightarrow> ulong_of_int x = nat x"
  by (simp add: ulong_of_int_def)

text \<open>
  Claim C8 reads the boundary as the number of leaf slots that remain in the deepest
  block starting at the mapped position.  Counted from the mapped position itself that
  number is \<open>leaf_slots_from\<close>; the code returns one less.  At block 11 of a file with
  1 KiB blocks, the last direct slot, one slot remains from the mapped position and the
  boundary is 0.
\<close>

theorem boundary_not_slots_from_position_counterexample:
  "boundary (next3_block_to_path 8 4 False 11)
     \<noteq> int (leaf_slots_from (deepest_block_slots 8 (next3_block_to_path 8 4 False 11))
                             (last (offsets (next3_block_to_path 8 4 False 11))))"
  by (simp add: next3_block_to_path_def path_result_def slot_defs Let_def
                deepest_block_slots_def leaf_slots_from_def)

text \<open>
  Claim C8, amended.  For every block in range the boundary is the number of leaf slots
  that follow the mapped position in the deepest block, one less than the number of
  slots from the mapped position on.  \<open>next3_blks_to_allocate\<close> caps a batch at
  \<open>boundary + 1\<close> blocks, so a batch that starts at the mapped position ends inside the
  block, and the scan for free slots never reads outside the block.
\<close>

theorem boundary_counts_slots_after_position:
  assumes b: "4 \<le> ptrs_bits" "ptrs_bits \<le> 15"
      and d: "0 < depth (next3_block_to_path ptrs_bits ntind snapshot_file i)"
  shows "(let r = next3_block_to_path ptrs_bits ntind snapshot_file i;
              n = deepest_block_slots ptrs_bits r;
              pos = last (offsets r)
          in pos < n
           \<and> boundary r = int (leaf_slots_from n pos) - 1
           \<and> (\<forall>slots k blks. (k = 0 \<longrightarrow> length slots = n) \<longrightarrow>
                 (\<exists>c. next3_blks_to_allocate slots pos k blks (boundary r) = Some c
                      \<and> c \<le> nat (boundary r) + 1 \<and> pos + c \<le> n)))"
proof -
  let ?r = "next3_block_to_path ptrs_bits ntind snapshot_file i"
  let ?n = "deepest_block_slots ptrs_bits ?r"
  let ?pos = "last (offsets ?r)"
  have pos: "?pos < ?n" using b(2) d by (rule last_offset_in_block)
  have bd: "boundary ?r = int ?n - 1 - int ?pos" using b d by (rule boundary_general)
  have n_le: "?n \<le> 2 ^ 15"
  proof -
    have "(2::nat) ^ ptrs_bits \<le> 2 ^ 15" using b(2) by (rule power_increasing) simp
    then show ?thesis by (simp add: deepest_block_slots_def slot_defs)
  qed
  have bnat: "nat (boundary ?r) = ?n - 1 - ?pos" using bd pos by simp
  have b0: "0 \<le> boundary ?r" using bd pos by simp
  have b32: "boundary ?r + 1 < 2 ^ 32" using bd n_le by simp
  have u1: "ulong_of_int (boundary ?r) = ?n - 1 - ?pos"
    using b0 b32 bnat by (simp add: ulong_of_small)
  have u2: "ulong_of_int (boundary ?r + 1) = ?n - ?pos"
    using b0 b32 bnat pos by (simp add: ulong_of_small nat_add_distrib)
  have c2: "boundary ?r = int (leaf_slots_from ?n ?pos) - 1"
    using bd pos by (simp add: leaf_slots_from_def of_nat_diff)
  have c3: "\<exists>c. next3_blks_to_allocate slots ?pos k blks (boundary ?r) = Some c
                \<and> c \<le> nat (boundary ?r) + 1 \<and> ?pos + c \<le> ?n"
    if len: "k = 0 \<longrightarrow> length slots = ?n" for slots k blks
  proof (cases "k > 0")
    case True
    then show ?thesis using u2 bnat pos
      by (auto simp add: next3_blks_to_allocate_def)
  next
    case False
    then have k: "k = 0" by simp
    then have "?pos + (?n - 1 - ?pos) < length slots" using len pos by simp
    then obtain c where c: "blks_scan slots ?pos blks (?n - 1 - ?pos) 1 = Some c"
      using blks_scan_total by blast
    then have "c \<le> ?n - 1 - ?pos + 1" using blks_scan_cap [OF c] by simp
    then show ?thesis using c k u1 bnat pos
      by (simp add: next3_blks_to_allocate_def)
  qed
  show ?thesis
    unfolding Let_def
  proof (intro conjI allI impI)
    show "?pos < ?n" by (rule pos)
    show "boundary ?r = int (leaf_slots_from ?n ?pos) - 1" by (rule c2)
    show "\<exists>c. next3_blks_to_allocate slots ?pos k blks (boundary ?r) = Some c
                \<and> c \<le> nat (boundary ?r) + 1 \<and> ?pos + c \<le> ?n"
      if "k = 0 \<longrightarrow> length slots = ?n" for slots k blks
      using that by (rule c3)
  qed
qed

theorem boundary_counts_slots_after_position_witness:
  "(4::nat) \<le> 8 \<and> (8::nat) \<le> 15 \<and> 0 < depth (next3_block_to_path 8 4 False 300)
   \<and> boundary (next3_block_to_path 8 4 False 300) = 223
   \<and> (\<exists>c. next3_blks_to_allocate [] 32 1 500 223 = Some c \<and> c \<le> 224)"
proof -
  let ?r = "next3_block_to_path 8 4 False 300"
  have d: "0 < depth ?r"
    by (simp add: next3_block_to_path_def path_result_def slot_defs Let_def)
  have v: "last (offsets ?r) = 32" "deepest_block_slots 8 ?r = 256"
    by (simp_all add: next3_block_to_path_def path_result_def slot_defs Let_def
                      deepest_block_slots_def)
  have h: "(4::nat) \<le> 8" "(8::nat) \<le> 15" by simp_all
  note t = boundary_counts_slots_after_position
             [where ptrs_bits = 8 and ntind = 4 and snapshot_file = False and i = 300,
              unfolded Let_def, OF h d]
  note t2 = t [THEN conjunct2, THEN conjunct1]
  note t3 = t [THEN conjunct2, THEN conjunct2, rule_format, of 1 "[]" 500]
  have b: "boundary ?r = 223"
    using t2 by (simp only: v leaf_slots_from_def) simp
  have "\<exists>c. next3_blks_to_allocate [] 32 1 500 223 = Some c \<and> c \<le> 224"
    using t3 by (simp only: v b) auto
  then show ?thesis using d b h by blast
qed

section \<open>Properties of the allocation goal\<close>

lemma find_rev_Some:
  "find P (rev ys) = Some v \<Longrightarrow>
     \<exists>j<length ys. ys ! j = v \<and> P v \<and> (\<forall>k. j < k \<and> k < length ys \<longrightarrow> \<not> P (ys ! k))"
proof (induction ys rule: rev_induct)
  case Nil
  then show ?case by simp
next
  case (snoc y ys)
  show ?case
  proof (cases "P y")
    case True
    then have "v = y" using snoc.prems by simp
    then show ?thesis using True
      by (intro exI [of _ "length ys"]) (auto simp add: nth_append)
  next
    case False
    then have "find P (rev ys) = Some v" using snoc.prems by simp
    then obtain j where j: "j < length ys" "ys ! j = v" "P v"
        "\<forall>k. j < k \<and> k < length ys \<longrightarrow> \<not> P (ys ! k)"
      using snoc.IH by blast
    have "\<forall>k. j < k \<and> k < length (ys @ [y]) \<longrightarrow> \<not> P ((ys @ [y]) ! k)"
      using j(4) False by (auto simp add: nth_append less_Suc_eq)
    then show ?thesis using j
      by (intro exI [of _ j]) (simp add: nth_append)
  qed
qed

lemma find_rev_nearest:
  assumes j: "j < length ys" "P (ys ! j)" and z: "\<forall>k. j < k \<and> k < length ys \<longrightarrow> \<not> P (ys ! k)"
  shows "find P (rev ys) = Some (ys ! j)"
proof -
  have "ys ! j \<in> set ys" using j(1) by simp
  then have "find P (rev ys) \<noteq> None"
    using j(2) by (auto simp add: find_None_iff)
  then obtain v where v: "find P (rev ys) = Some v" by blast
  obtain j' where j': "j' < length ys" "ys ! j' = v" "P v"
      "\<forall>k. j' < k \<and> k < length ys \<longrightarrow> \<not> P (ys ! k)"
    using find_rev_Some [OF v] by blast
  have "\<not> j < j'" using z j' by blast
  moreover have "\<not> j' < j" using j j'(4) by blast
  ultimately have "j' = j" by simp
  then show ?thesis using v j'(2) by simp
qed

lemma colour_value:
  assumes "blocks_per_group < 2 ^ 31"
  shows "(word_of_int (colour blocks_per_group pid) :: 64 word)
           = word_of_nat ((pid mod 16) * (blocks_per_group div 16))"
proof -
  define c where "c = (pid mod 16) * (blocks_per_group div 16)"
  have "pid mod 16 \<le> 15" by simp
  then have "c \<le> 15 * (blocks_per_group div 16)"
    unfolding c_def by (rule mult_right_mono) simp
  moreover have "15 * (blocks_per_group div 16) \<le> blocks_per_group" by simp
  ultimately have c: "c < 2 ^ 31" using assms by linarith
  then have "c < 2 ^ 32" by simp
  then have u: "unat (word_of_nat c :: 32 word) = c"
    by (simp add: unat_of_nat take_bit_nat_eq_self)
  have "sint (word_of_nat c :: 32 word) = int (unat (word_of_nat c :: 32 word))"
    by (rule sint_small) (simp only: u c)
  then have "sint (word_of_nat c :: 32 word) = int c"
    by (simp only: u)
  then have "(word_of_int (sint (word_of_nat c :: 32 word)) :: 64 word) = word_of_nat c"
    by simp
  then show ?thesis unfolding colour_def c_def .
qed

lemma find_near_left:
  assumes p_in: "ind_p partial \<le> length start"
      and st: "start = (case ind_bh partial of Some b \<Rightarrow> b_data b | None \<Rightarrow> i_data ei)"
      and j: "j < ind_p partial" "start ! j \<noteq> 0"
      and z: "\<forall>k. j < k \<and> k < ind_p partial \<longrightarrow> start ! k = 0"
  shows "next3_find_near gfb bpg pid ei partial = ucast (start ! j)"
proof -
  let ?ys = "take (ind_p partial) start"
  have len: "length ?ys = ind_p partial" using p_in by simp
  have "find (\<lambda>v. v \<noteq> 0) (rev ?ys) = Some (?ys ! j)"
  proof (rule find_rev_nearest)
    show "j < length ?ys" using j(1) len by simp
    show "?ys ! j \<noteq> 0" using j by simp
    show "\<forall>k. j < k \<and> k < length ?ys \<longrightarrow> \<not> ?ys ! k \<noteq> 0" using z len by simp
  qed
  then have "find (\<lambda>v. v \<noteq> 0) (rev ?ys) = Some (start ! j)" using j(1) by simp
  then show ?thesis
    unfolding next3_find_near_def st [symmetric] Let_def by simp
qed

lemma find_near_none:
  assumes p_in: "ind_p partial \<le> length start"
      and st: "start = (case ind_bh partial of Some b \<Rightarrow> b_data b | None \<Rightarrow> i_data ei)"
      and z: "\<forall>j < ind_p partial. start ! j = 0"
      and bpg: "bpg < 2 ^ 31"
  shows "next3_find_near gfb bpg pid ei partial
           = (case ind_bh partial of Some b \<Rightarrow> b_blocknr b
              | None \<Rightarrow> gfb (i_block_group ei) + word_of_nat ((pid mod 16) * (bpg div 16)))"
proof -
  let ?ys = "take (ind_p partial) start"
  have "\<forall>x \<in> set ?ys. x = 0"
    using z p_in by (auto simp add: in_set_conv_nth)
  then have "find (\<lambda>v. v \<noteq> 0) (rev ?ys) = None"
    by (simp add: find_None_iff)
  then show ?thesis
    unfolding next3_find_near_def st [symmetric] Let_def
    by (simp add: colour_value [OF bpg] split: option.splits)
qed

text \<open>
  Claim C7 says that \<open>find_goal\<close> returns \<open>last_alloc_physical_block + 1\<close> whenever the
  inode remembers \<open>last_alloc_logical_block = iblock - 1\<close>.  The code takes the
  sequential goal only when the remembered physical block is not zero.  A file whose
  allocation info was just initialised remembers logical block 0 and physical block 0;
  for block 1 the claim gives the goal 1, the code gives the nearest pointer to the
  left, block 500.
\<close>

theorem find_goal_sequential_counterexample:
  "i_block_alloc_info fresh_file
     = Some \<lparr>last_alloc_logical_block = 1 - 1, last_alloc_physical_block = 0\<rparr>
   \<and> next3_find_goal example_snapshot_block example_group_first_block_no 8192 4242 fresh_file 1 hole_at_1 \<noteq> 0 + 1"
  by (simp add: next3_find_goal_def next3_find_near_def fresh_file_def hole_at_1_def)

text \<open>
  Claim C7, amended.  \<open>find_goal\<close> returns \<open>last_alloc_physical_block + 1\<close> when the
  inode has allocation info with \<open>iblock = last_alloc_logical_block + 1\<close> and a non-zero
  \<open>last_alloc_physical_block\<close>; failing that, for a snapshot file it returns
  \<open>SNAPSHOT_BLOCK(iblock)\<close>, the physical block that the logical block of the snapshot
  file stands for; failing that it returns \<open>find_near\<close>.  \<open>find_near\<close> returns the nearest non-zero pointer to the
  left of the position in the block or slot array that holds it; if there is none, the
  address of the holding indirect block; and for a pointer that lives in the inode, the
  first block of the inode's group plus \<open>(pid mod 16) * (blocks_per_group div 16)\<close>.
\<close>

theorem find_goal_selection:
  assumes p_in: "ind_p partial
                   \<le> length (case ind_bh partial of Some b \<Rightarrow> b_data b | None \<Rightarrow> i_data ei)"
      and bpg: "blocks_per_group < 2 ^ 31"
  shows "(let start = (case ind_bh partial of Some b \<Rightarrow> b_data b | None \<Rightarrow> i_data ei);
              goal = next3_find_goal snapshot_block gfb blocks_per_group pid ei block partial;
              near = next3_find_near gfb blocks_per_group pid ei partial;
              sequential = (case i_block_alloc_info ei of
                              Some bi \<Rightarrow> block = ucast (last_alloc_logical_block bi + 1)
                                         \<and> last_alloc_physical_block bi \<noteq> 0
                            | None \<Rightarrow> False)
          in (sequential \<longrightarrow>
                (\<exists>bi. i_block_alloc_info ei = Some bi
                     \<and> goal = last_alloc_physical_block bi + 1))
           \<and> (\<not> sequential \<and> is_snapshot_file ei \<longrightarrow> goal = snapshot_block block)
           \<and> (\<not> sequential \<and> \<not> is_snapshot_file ei \<longrightarrow> goal = near)
           \<and> (\<forall>j. j < ind_p partial \<and> start ! j \<noteq> 0
                   \<and> (\<forall>k. j < k \<and> k < ind_p partial \<longrightarrow> start ! k = 0)
                 \<longrightarrow> near = ucast (start ! j))
           \<and> ((\<forall>j < ind_p partial. start ! j = 0) \<longrightarrow>
                 near = (case ind_bh partial of
                           Some b \<Rightarrow> b_blocknr b
                         | None \<Rightarrow> gfb (i_block_group ei)
                                     + word_of_nat ((pid mod 16) * (blocks_per_group div 16)))))"
proof -
  let ?start = "case ind_bh partial of Some b \<Rightarrow> b_data b | None \<Rightarrow> i_data ei"
  let ?goal = "next3_find_goal snapshot_block gfb blocks_per_group pid ei block partial"
  let ?near = "next3_find_near gfb blocks_per_group pid ei partial"
  let ?seq = "case i_block_alloc_info ei of
                Some bi \<Rightarrow> block = ucast (last_alloc_logical_block bi + 1)
                           \<and> last_alloc_physical_block bi \<noteq> 0
              | None \<Rightarrow> False"
  have c1: "?seq \<longrightarrow> (\<exists>bi. i_block_alloc_info ei = Some bi
                           \<and> ?goal = last_alloc_physical_block bi + 1)"
    by (simp add: next3_find_goal_def split: option.splits)
  have c2: "\<not> ?seq \<and> is_snapshot_file ei \<longrightarrow> ?goal = snapshot_block block"
    by (simp add: next3_find_goal_def split: option.splits)
  have c3: "\<not> ?seq \<and> \<not> is_snapshot_file ei \<longrightarrow> ?goal = ?near"
    by (simp add: next3_find_goal_def split: option.splits)
  have c4: "\<forall>j. j < ind_p partial \<and> ?start ! j \<noteq> 0
                   \<and> (\<forall>k. j < k \<and> k < ind_p partial \<longrightarrow> ?start ! k = 0)
                 \<longrightarrow> ?near = ucast (?start ! j)"
    using find_near_left [OF p_in refl] by blast
  have c5: "(\<forall>j < ind_p partial. ?start ! j = 0) \<longrightarrow>
                 ?near = (case ind_bh partial of
                           Some b \<Rightarrow> b_blocknr b
                         | None \<Rightarrow> gfb (i_block_group ei)
                                     + word_of_nat ((pid mod 16) * (blocks_per_group div 16)))"
    using find_near_none [OF p_in refl _ bpg] by blast
  show ?thesis
    unfolding Let_def using c1 c2 c3 c4 c5 by (intro conjI)
qed

theorem find_goal_selection_witness:
  "ind_p hole_at_1 \<le> length (case ind_bh hole_at_1 of Some b \<Rightarrow> b_data b
                                | None \<Rightarrow> i_data fresh_file)
   \<and> (8192::nat) < 2 ^ 31
   \<and> next3_find_goal example_snapshot_block example_group_first_block_no 8192 4242 fresh_file 1 hole_at_1 = 500
   \<and> next3_find_goal example_snapshot_block example_group_first_block_no 8192 4242
        (fresh_file\<lparr>i_block_alloc_info := Some \<lparr>last_alloc_logical_block = 6,
                                                   last_alloc_physical_block = 1000\<rparr>\<rparr>)
        7 hole_at_1 = 1001
   \<and> next3_find_goal example_snapshot_block example_group_first_block_no 8192 4242
        snapshot_file_7 1368 hole_at_1 = 1100"
proof -
  let ?seq_file = "fresh_file\<lparr>i_block_alloc_info := Some \<lparr>last_alloc_logical_block = 6,
                                                   last_alloc_physical_block = 1000\<rparr>\<rparr>"
  have h1: "ind_p hole_at_1 \<le> length (case ind_bh hole_at_1 of Some b \<Rightarrow> b_data b
                                | None \<Rightarrow> i_data fresh_file)"
    by (simp add: hole_at_1_def fresh_file_def)
  have h1': "ind_p hole_at_1 \<le> length (case ind_bh hole_at_1 of Some b \<Rightarrow> b_data b
                                | None \<Rightarrow> i_data ?seq_file)"
    by (simp add: hole_at_1_def fresh_file_def)
  have h1'': "ind_p hole_at_1 \<le> length (case ind_bh hole_at_1 of Some b \<Rightarrow> b_data b
                                | None \<Rightarrow> i_data snapshot_file_7)"
    by (simp add: hole_at_1_def snapshot_file_7_def)
  have h2: "(8192::nat) < 2 ^ 31" by simp
  note t = find_goal_selection
             [where partial = hole_at_1 and ei = fresh_file and blocks_per_group = 8192
                and gfb = example_group_first_block_no and pid = 4242 and block = 1
                and snapshot_block = example_snapshot_block,
              unfolded Let_def, OF h1 h2]
  note s = find_goal_selection
             [where partial = hole_at_1 and ei = ?seq_file and blocks_per_group = 8192
                and gfb = example_group_first_block_no and pid = 4242 and block = 7
                and snapshot_block = example_snapshot_block,
              unfolded Let_def, OF h1' h2]
  note u = find_goal_selection
             [where partial = hole_at_1 and ei = snapshot_file_7 and blocks_per_group = 8192
                and gfb = example_group_first_block_no and pid = 4242 and block = 1368
                and snapshot_block = example_snapshot_block,
              unfolded Let_def, OF h1'' h2]
  have near: "next3_find_near example_group_first_block_no 8192 4242 fresh_file hole_at_1 = 500"
    using t [THEN conjunct2, THEN conjunct2, THEN conjunct2, THEN conjunct1, THEN spec, of 0]
    by (auto simp add: hole_at_1_def fresh_file_def)
  have g1: "next3_find_goal example_snapshot_block example_group_first_block_no 8192 4242 fresh_file 1 hole_at_1 = 500"
    using t [THEN conjunct2, THEN conjunct2, THEN conjunct1] near
    by (simp add: fresh_file_def)
  have g2: "next3_find_goal example_snapshot_block example_group_first_block_no 8192 4242 ?seq_file 7 hole_at_1 = 1001"
    using s [THEN conjunct1] by (simp add: fresh_file_def)
  have g3: "next3_find_goal example_snapshot_block example_group_first_block_no 8192 4242
              snapshot_file_7 1368 hole_at_1 = 1100"
    using u [THEN conjunct2, THEN conjunct1]
    by (simp add: snapshot_file_7_def example_snapshot_block_def)
  show ?thesis using h1 h2 g1 g2 g3 by (intro conjI)
qed

section \<open>Properties of the truncate credits\<close>

lemma unat_drop64: "unat (drop_bit k (w :: 64 word)) = unat w div 2 ^ k"
  by (simp add: unat_drop_bit_eq drop_bit_nat_def)

lemma needed_value:
  fixes M :: "64 word"
  shows "unat (let needed = drop_bit k (ib :: 64 word);
              needed = (if needed < 2 then 2 else needed);
              needed = (if needed > M then M else needed) in needed)
         = min (max (unat ib div 2 ^ k) 2) (unat M)"
  by (auto simp add: Let_def word_less_nat_alt unat_drop64 min_def max_def)

lemma sint_ucast_small:
  assumes "unat (w :: 64 word) < 2 ^ 31"
  shows "sint (ucast w :: 32 word) = int (unat w)"
proof -
  have "unat (ucast w :: 32 word) = unat w"
  proof -
    have "unat w < 2 ^ 32" using assms by simp
    then show ?thesis by (simp add: unsigned_ucast_eq take_bit_nat_eq_self)
  qed
  then show ?thesis using assms sint_small [of "ucast w"] by simp
qed

text \<open>
  Claim C9.  The truncate engine starts its transaction with
  \<open>DATA_TRANS_BLOCKS + min (max (i_blocks >> (blocksize_bits - 9)) 2) MAX_TRANS_DATA\<close>
  credits: the block count of the inode in filesystem blocks, raised to 2 and clamped to
  \<open>MAX_TRANS_DATA\<close>, plus the fixed reserve.  The two constants are small, so that the
  sum is the same number as an \<open>unsigned long\<close> and as the \<open>int\<close> the journal receives.
\<close>

theorem truncate_credit_budget:
  assumes bits: "9 \<le> s_blocksize_bits"
      and small: "unat data_trans_blocks + unat max_trans_data < 2 ^ 31"
  shows "unat (blocks_for_truncate max_trans_data data_trans_blocks i_blocks s_blocksize_bits)
           = unat data_trans_blocks
             + min (max (unat i_blocks div 2 ^ (s_blocksize_bits - 9)) 2) (unat max_trans_data)
       \<and> fst (start_transaction journal_start max_trans_data data_trans_blocks i_blocks
                s_blocksize_bits)
           = journal_start (int (unat data_trans_blocks
               + min (max (unat i_blocks div 2 ^ (s_blocksize_bits - 9)) 2) (unat max_trans_data)))"
proof -
  let ?k = "s_blocksize_bits - 9"
  define needed where "needed = (let needed = drop_bit ?k i_blocks;
              needed = (if needed < 2 then 2 else needed);
              needed = (if needed > max_trans_data then max_trans_data else needed) in needed)"
  have n: "unat needed = min (max (unat i_blocks div 2 ^ ?k) 2) (unat max_trans_data)"
    unfolding needed_def by (rule needed_value)
  have le: "unat needed \<le> unat max_trans_data" using n by simp
  have bft: "blocks_for_truncate max_trans_data data_trans_blocks i_blocks s_blocksize_bits
               = data_trans_blocks + needed"
    by (simp add: blocks_for_truncate_def needed_def Let_def)
  have lt: "unat data_trans_blocks + unat needed < 2 ^ 31" using le small by linarith
  have "(2::nat) ^ 31 < 2 ^ 64" by simp
  then have "unat data_trans_blocks + unat needed < 2 ^ LENGTH(64)" using lt by simp
  then have sum: "unat (data_trans_blocks + needed) = unat data_trans_blocks + unat needed"
    by (rule unat_add_lem [THEN iffD1])
  have c1: "unat (blocks_for_truncate max_trans_data data_trans_blocks i_blocks s_blocksize_bits)
           = unat data_trans_blocks + min (max (unat i_blocks div 2 ^ ?k) 2) (unat max_trans_data)"
    using bft sum n by simp
  have "sint (ucast (data_trans_blocks + needed) :: 32 word) = int (unat (data_trans_blocks + needed))"
    using lt sum by (intro sint_ucast_small) simp
  then have c2: "fst (start_transaction journal_start max_trans_data data_trans_blocks i_blocks
                s_blocksize_bits)
           = journal_start (int (unat data_trans_blocks
               + min (max (unat i_blocks div 2 ^ ?k) 2) (unat max_trans_data)))"
    using bft sum n by (simp add: start_transaction_def Let_def split: sum.splits)
  show ?thesis using c1 c2 by (rule conjI)
qed

theorem truncate_credit_budget_witness:
  "(9::nat) \<le> 10 \<and> unat (30 :: 64 word) + unat (64 :: 64 word) < 2 ^ 31
   \<and> unat (blocks_for_truncate 64 30 1000 10) = 94
   \<and> fst (start_transaction Inr 64 30 1000 10) = (Inr 94 :: int + int)"
proof -
  have h: "(9::nat) \<le> 10" "unat (30 :: 64 word) + unat (64 :: 64 word) < 2 ^ 31"
    by simp_all
  note t = truncate_credit_budget
             [where s_blocksize_bits = 10 and data_trans_blocks = 30 and max_trans_data = 64
                and i_blocks = 1000 and journal_start = "Inr :: int \<Rightarrow> int + int", OF h]
  show ?thesis using h t by simp
qed

section \<open>Properties of the snapshot COW engine\<close>

lemmas example_defs = active_snapshot_12_def old_snapshot_11_def regular_file_40_def
  example_bitmap_def example_read_cow_bitmap_def example_env_def enospc_env_def
  boundary_bitmap_def boundary_read_cow_bitmap_def
  journalled_buffer_def handle_7_def cowing_handle_7_def cow_state_7_def no_quota_def
  move_state_7_def

lemmas cow_defs = ext4_snapshot_test_and_cow_def cow_copy_def cow_out_def cow_cowed_def call_def
  ext4_snapshot_cow_begin_def ext4_snapshot_cow_end_def ext4_snapshot_test_cow_bitmap_def
  ext4_mb_test_bit_range_def ext4_snapshot_test_cowed_def ext4_snapshot_mark_cowed_def
  ext4_snapshot_excluded_def ext4_snapshot_file_def same_inode_def
  SNAPSHOT_BLOCK_GROUP_def SNAPSHOT_BLOCK_GROUP_OFFSET_def

lemmas move_defs = ext4_snapshot_test_and_move_def move_out_def call_mv_def
  dquot_free_block_def dquot_alloc_block_nofail_def

lemma cow_out_bracket:
  assumes "st_trace s1 = st_trace s @ new" "new \<noteq> []" "\<forall>c \<in> set new. snd c"
  shows "cow_bracket s (snd (cow_out err s1))"
  using assms by (auto simp add: cow_bracket_def cow_out_def ext4_snapshot_cow_end_def)

lemma cow_cowed_bracket:
  assumes "st_trace s1 = st_trace s @ new" "new \<noteq> []" "\<forall>c \<in> set new. snd c"
  shows "cow_bracket s (snd (cow_cowed err s1))"
  using assms by (auto simp add: cow_bracket_def cow_cowed_def cow_out_def ext4_snapshot_cow_end_def)

lemma cow_copy_bracket:
  assumes "st_trace s1 = st_trace s @ new" "new \<noteq> []" "\<forall>c \<in> set new. snd c"
      and "h_cowing (st_handle s1)"
  shows "cow_bracket s (snd (cow_copy env s1))"
proof -
  let ?s2 = "call Getblk_cow s1"
  let ?s3 = "call Copy_buffer_cow ?s2"
  have t2: "st_trace ?s2 = st_trace s @ (new @ [(Getblk_cow, True)])"
    using assms by (simp add: call_def)
  have t3: "st_trace ?s3 = st_trace s @ (new @ [(Getblk_cow, True), (Copy_buffer_cow, True)])"
    using assms by (simp add: call_def)
  have a2: "\<forall>c \<in> set (new @ [(Getblk_cow, True)]). snd c" using assms(3) by simp
  have a3: "\<forall>c \<in> set (new @ [(Getblk_cow, True), (Copy_buffer_cow, True)]). snd c"
    using assms(3) by simp
  show ?thesis
    unfolding cow_copy_def Let_def
    by (auto split: getblk_result.splits option.splits
             intro!: cow_out_bracket [OF t2 _ a2] cow_cowed_bracket [OF t2 _ a2]
                     cow_out_bracket [OF t3 _ a3] cow_cowed_bracket [OF t3 _ a3])
qed

lemma test_and_cow_bracket:
  assumes "\<not> h_cowing (st_handle s)" "\<not> same_inode inode snapshot"
      and "\<not> ext4_snapshot_test_cowed (st_handle s) (st_bh s)"
  shows "cow_bracket s (snd (ext4_snapshot_test_and_cow env (Some snapshot) inode block cow s))"
proof -
  let ?s0 = "s\<lparr>st_handle := ext4_snapshot_cow_begin (st_handle s)\<rparr>"
  let ?s1 = "call Test_cow_bitmap ?s0"
  let ?s2 = "call Map_blocks_read ?s1"
  have c1: "h_cowing (st_handle ?s1)" "h_cowing (st_handle ?s2)"
    by (simp_all add: call_def ext4_snapshot_cow_begin_def)
  have t1: "st_trace ?s1 = st_trace s @ [(Test_cow_bitmap, True)]"
    by (simp add: call_def ext4_snapshot_cow_begin_def)
  have t2: "st_trace ?s2 = st_trace s @ [(Test_cow_bitmap, True), (Map_blocks_read, True)]"
    by (simp add: call_def ext4_snapshot_cow_begin_def)
  have t2': "\<And>b. st_trace (?s2\<lparr>st_bh := b\<rparr>)
                 = st_trace s @ [(Test_cow_bitmap, True), (Map_blocks_read, True)]"
    by (simp add: call_def ext4_snapshot_cow_begin_def)
  have c2': "\<And>b. h_cowing (st_handle (?s2\<lparr>st_bh := b\<rparr>))"
    by (simp add: call_def ext4_snapshot_cow_begin_def)
  have b2: "\<And>b. st_bh ?s2 = st_bh s"
    by (simp add: call_def)
  note o1 = cow_out_bracket [OF t1] cow_cowed_bracket [OF t1]
  note o2 = cow_out_bracket [OF t2] cow_cowed_bracket [OF t2]
       cow_copy_bracket [OF t2 _ _ c1(2)] cow_copy_bracket [OF t2' _ _ c2']
  show ?thesis
    using assms unfolding ext4_snapshot_test_and_cow_def Let_def
    by (auto split: prod.splits sum.splits option.splits intro!: o1 o2)
qed


lemma move_blocks_trace:
  "move_blocks answers snap count moved s1 = Some (e, c, m, s2) \<Longrightarrow> h_cowing (mv_handle s1) \<Longrightarrow>
     mv_handle s2 = mv_handle s1
     \<and> (\<exists>new. mv_trace s2 = mv_trace s1 @ new \<and> (\<forall>x \<in> set new. snd x))"
proof (induction answers snap count moved s1 rule: move_blocks.induct)
  case (1 snap count moved s)
  then show ?case by (auto split: if_splits)
next
  case (2 a answers snap count moved s)
  show ?case
  proof (cases "count = 0")
    case True
    then show ?thesis using 2 by auto
  next
    case False
    note nz = this
    show ?thesis
    proof (cases a)
      case (Inl err)
      then show ?thesis using 2(2,3) nz by (auto simp add: call_mv_def Let_def)
    next
      case (Inr k)
      show ?thesis
      proof (cases "k = 0")
        case True
        then show ?thesis using 2(2,3) nz Inr by (auto simp add: call_mv_def Let_def)
      next
        case False
        let ?s = "call_mv Map_blocks_move s"
        let ?s' = "?s\<lparr>mv_quota := dquot_alloc_block_nofail snap (int k) (mv_quota ?s)\<rparr>"
        have rec: "move_blocks answers snap (count - int k) (moved + int k) ?s' = Some (e, c, m, s2)"
          using 2(2) nz Inr False by (simp add: Let_def)
        have cw: "h_cowing (mv_handle ?s')" using 2(3) by (simp add: call_mv_def)
        have "mv_handle s2 = mv_handle ?s'
              \<and> (\<exists>new. mv_trace s2 = mv_trace ?s' @ new \<and> (\<forall>x \<in> set new. snd x))"
          using 2(1) [OF nz refl Inr False rec cw] .
        then obtain new where n: "mv_handle s2 = mv_handle ?s'" "mv_trace s2 = mv_trace ?s' @ new"
            "\<forall>x \<in> set new. snd x" by blast
        have "mv_trace s2 = mv_trace s @ ((Map_blocks_move, True) # new)"
          using n(2) 2(3) by (simp add: call_mv_def)
        moreover have "\<forall>x \<in> set ((Map_blocks_move, True) # new). snd x" using n(3) by simp
        moreover have "mv_handle s2 = mv_handle s" using n(1) by (simp add: call_mv_def)
        ultimately show ?thesis by blast
      qed
    qed
  qed
qed

lemma test_and_move_bracket:
  assumes "ext4_snapshot_test_and_move env (Some snapshot) inode block maxblocks move s
             = Done (r, c, s')"
  shows "move_bracket s s'"
proof -
  have nb: "\<not> h_cowing (mv_handle s)" "\<not> same_inode inode snapshot"
    using assms by (auto simp add: ext4_snapshot_test_and_move_def split: if_splits)
  let ?s0 = "s\<lparr>mv_handle := ext4_snapshot_cow_begin (mv_handle s)\<rparr>"
  let ?s1 = "call_mv Test_cow_bitmap ?s0"
  let ?s2 = "call_mv Map_blocks_read ?s1"
  have t1: "mv_trace ?s1 = mv_trace s @ [(Test_cow_bitmap, True)]"
    by (simp add: call_mv_def ext4_snapshot_cow_begin_def)
  have t2: "mv_trace ?s2 = mv_trace s @ [(Test_cow_bitmap, True), (Map_blocks_read, True)]"
    by (simp add: call_mv_def ext4_snapshot_cow_begin_def)
  have c2: "h_cowing (mv_handle ?s2)"
    by (simp add: call_mv_def ext4_snapshot_cow_begin_def)
  have out1: "move_bracket s (s1\<lparr>mv_handle := ext4_snapshot_cow_end (mv_handle s1)\<rparr>)"
    if "mv_trace s1 = mv_trace s @ new" "new \<noteq> []" "\<forall>x \<in> set new. snd x" for s1 new
    using that by (auto simp add: move_bracket_def ext4_snapshot_cow_end_def)
  have loop: "move_bracket s (s3\<lparr>mv_handle := ext4_snapshot_cow_end (mv_handle s3)\<rparr>)"
       "move_bracket s (s3\<lparr>mv_quota := q, mv_handle := ext4_snapshot_cow_end (mv_handle s3)\<rparr>)"
    if mb: "move_blocks answers snap count 0 ?s2 = Some (e, c', m, s3)"
    for answers snap count e c' m s3 q
  proof -
    obtain new where n: "mv_trace s3 = mv_trace ?s2 @ new" "\<forall>x \<in> set new. snd x"
      using move_blocks_trace [OF mb c2] by blast
    have tr: "mv_trace s3 = mv_trace s @ ([(Test_cow_bitmap, True), (Map_blocks_read, True)] @ new)"
      using n(1) t2 by simp
    have al: "\<forall>x \<in> set ([(Test_cow_bitmap, True), (Map_blocks_read, True)] @ new). snd x"
      using n(2) by simp
    show "move_bracket s (s3\<lparr>mv_handle := ext4_snapshot_cow_end (mv_handle s3)\<rparr>)"
      using tr al by (intro out1 [of _ "[(Test_cow_bitmap, True), (Map_blocks_read, True)] @ new"]) simp_all
    show "move_bracket s (s3\<lparr>mv_quota := q, mv_handle := ext4_snapshot_cow_end (mv_handle s3)\<rparr>)"
      using out1 [of "s3\<lparr>mv_quota := q\<rparr>" "[(Test_cow_bitmap, True), (Map_blocks_read, True)] @ new"] tr al
      by simp
  qed
  show ?thesis
    using assms nb out1 [OF t1] out1 [OF t2] loop
    unfolding ext4_snapshot_test_and_move_def Let_def move_out_def
    by (auto split: prod.splits sum.splits option.splits if_splits)
qed

lemma move_blocks_returns:
  "answers_suffice answers count \<Longrightarrow> \<exists>r. move_blocks answers snap count moved s = Some r"
proof (induction answers arbitrary: count moved s)
  case Nil
  then show ?case by simp
next
  case (Cons a answers)
  show ?case
  proof (cases "count = 0")
    case True
    then show ?thesis by simp
  next
    case False
    note nz = this
    show ?thesis
    proof (cases a)
      case (Inl e)
      then show ?thesis using nz by (simp add: Let_def)
    next
      case (Inr k)
      show ?thesis
      proof (cases "k = 0")
        case True
        then show ?thesis using nz Inr by (simp add: Let_def)
      next
        case False
        then have "answers_suffice answers (count - int k)"
          using Cons.prems nz Inr by simp
        from Cons.IH [OF this] show ?thesis
          using nz Inr False by (simp add: Let_def)
      qed
    qed
  qed
qed

lemma test_and_move_returns:
  assumes nc: "\<not> h_cowing (mv_handle m)" and ns: "\<not> same_inode inode snapshot"
      and an: "move_loop_reached env inode block maxblocks move \<longrightarrow>
                 answers_suffice (map_blocks_move env)
                   (snd (ext4_snapshot_test_cow_bitmap env block maxblocks))"
  shows "\<exists>r c m'. ext4_snapshot_test_and_move env (Some snapshot) inode block maxblocks move m
                     = Done (r, c, m')"
proof -
  obtain err count where bm: "ext4_snapshot_test_cow_bitmap env block maxblocks = (err, count)"
    by (cases "ext4_snapshot_test_cow_bitmap env block maxblocks")
  let ?s2 = "call_mv Map_blocks_read
               (call_mv Test_cow_bitmap (m\<lparr>mv_handle := ext4_snapshot_cow_begin (mv_handle m)\<rparr>))"
  have loop: "\<exists>r. move_blocks (map_blocks_move env) (i_ino snapshot) count 0 ?s2 = Some r"
    if "0 < err" "map_blocks_read env = Inr 0" "move" "ext4_snapshot_excluded inode = 0"
  proof -
    have "move_loop_reached env inode block maxblocks move"
      using that bm by (simp add: move_loop_reached_def)
    then have "answers_suffice (map_blocks_move env) count" using an bm by simp
    then show ?thesis by (rule move_blocks_returns)
  qed
  show ?thesis
  proof (cases "0 < err \<and> map_blocks_read env = Inr 0 \<and> move
                \<and> ext4_snapshot_excluded inode = 0")
    case False
    then show ?thesis
      using nc ns bm
      unfolding ext4_snapshot_test_and_move_def Let_def move_out_def
      by (auto split: sum.splits)
  next
    case True
    then obtain e c mb s3 where
      r: "move_blocks (map_blocks_move env) (i_ino snapshot) count 0 ?s2 = Some (e, c, mb, s3)"
      using loop by (metis prod_cases4)
    show ?thesis
      using nc ns bm True r
      unfolding ext4_snapshot_test_and_move_def Let_def move_out_def
      by (cases e) auto
  qed
qed

text \<open>
  Claim C3.  A call of \<open>test_and_cow\<close> under a handle whose cowing flag is set changes
  nothing and returns 0.  Under a handle that is not cowing, a call for the inode of the
  active snapshot is refused with \<open>-EPERM\<close> and changes nothing.  A call that begins a
  COW operation sets the flag before it calls anything with the handle and clears it
  before it returns.  So does every call of \<open>test_and_move\<close>; and a call of
  \<open>test_and_move\<close> under a handle that is not cowing, for an inode other than the
  active snapshot, does return, on every path, once the environment answers each
  mapping call that the loop makes.
\<close>

theorem cowing_flag_brackets_cow_and_move:
  "(h_cowing (st_handle s) \<longrightarrow>
      ext4_snapshot_test_and_cow env active_snapshot inode block cow s = (0, s))
   \<and> (\<not> h_cowing (st_handle s) \<and> same_inode inode snapshot \<longrightarrow>
      ext4_snapshot_test_and_cow env (Some snapshot) inode block cow s
        = (- errno_val EPERM, s))
   \<and> (\<not> h_cowing (st_handle s) \<and> \<not> same_inode inode snapshot
        \<and> \<not> ext4_snapshot_test_cowed (st_handle s) (st_bh s) \<longrightarrow>
      cow_bracket s (snd (ext4_snapshot_test_and_cow env (Some snapshot) inode block cow s)))
   \<and> (\<forall>r c m'. ext4_snapshot_test_and_move env (Some snapshot) inode block maxblocks move m
                   = Done (r, c, m') \<longrightarrow> move_bracket m m')
   \<and> (\<not> h_cowing (mv_handle m) \<and> \<not> same_inode inode snapshot
        \<and> (move_loop_reached env inode block maxblocks move \<longrightarrow>
              answers_suffice (map_blocks_move env)
                (snd (ext4_snapshot_test_cow_bitmap env block maxblocks))) \<longrightarrow>
      (\<exists>r c m'. ext4_snapshot_test_and_move env (Some snapshot) inode block maxblocks move m
                   = Done (r, c, m') \<and> move_bracket m m'))"
proof (intro conjI impI allI)
  assume "h_cowing (st_handle s)"
  then show "ext4_snapshot_test_and_cow env active_snapshot inode block cow s = (0, s)"
    by (simp add: ext4_snapshot_test_and_cow_def split: option.splits)
next
  assume "\<not> h_cowing (st_handle s) \<and> same_inode inode snapshot"
  then show "ext4_snapshot_test_and_cow env (Some snapshot) inode block cow s
               = (- errno_val EPERM, s)"
    by (simp add: ext4_snapshot_test_and_cow_def)
next
  assume "\<not> h_cowing (st_handle s) \<and> \<not> same_inode inode snapshot
          \<and> \<not> ext4_snapshot_test_cowed (st_handle s) (st_bh s)"
  then show "cow_bracket s (snd (ext4_snapshot_test_and_cow env (Some snapshot) inode block cow s))"
    by (simp add: test_and_cow_bracket)
next
  fix r c m'
  assume "ext4_snapshot_test_and_move env (Some snapshot) inode block maxblocks move m
            = Done (r, c, m')"
  then show "move_bracket m m'" by (rule test_and_move_bracket)
next
  assume a: "\<not> h_cowing (mv_handle m) \<and> \<not> same_inode inode snapshot
        \<and> (move_loop_reached env inode block maxblocks move \<longrightarrow>
              answers_suffice (map_blocks_move env)
                (snd (ext4_snapshot_test_cow_bitmap env block maxblocks)))"
  then obtain r c m' where
    d: "ext4_snapshot_test_and_move env (Some snapshot) inode block maxblocks move m
          = Done (r, c, m')"
    using test_and_move_returns [of m inode snapshot env block maxblocks move] by blast
  then have "move_bracket m m'" by (rule test_and_move_bracket)
  with d show "\<exists>r c m'. ext4_snapshot_test_and_move env (Some snapshot) inode block maxblocks
                          move m = Done (r, c, m') \<and> move_bracket m m'"
    by blast
qed

theorem cowing_flag_brackets_cow_and_move_witness:
  "ext4_snapshot_test_and_cow example_env (Some active_snapshot_12) (Some regular_file_40) 100 True
     (cow_state_7\<lparr>st_handle := cowing_handle_7\<rparr>)
     = (0, cow_state_7\<lparr>st_handle := cowing_handle_7\<rparr>)
   \<and> ext4_snapshot_test_and_cow example_env (Some active_snapshot_12) (Some active_snapshot_12)
       100 True cow_state_7 = (- 1, cow_state_7)
   \<and> cow_bracket cow_state_7
       (snd (ext4_snapshot_test_and_cow example_env (Some active_snapshot_12)
               (Some regular_file_40) 100 True cow_state_7))
   \<and> move_loop_reached example_env (Some regular_file_40) 100 2 True
   \<and> answers_suffice (map_blocks_move example_env)
       (snd (ext4_snapshot_test_cow_bitmap example_env 100 2))
   \<and> (\<exists>r c m'. ext4_snapshot_test_and_move example_env (Some active_snapshot_12)
                   (Some regular_file_40) 100 2 True move_state_7 = Done (r, c, m')
                \<and> move_bracket move_state_7 m')
   \<and> move_bracket move_state_7
       \<lparr>mv_handle = handle_7, mv_quota = no_quota(12 := 2, 40 := - 2),
        mv_trace = [(Test_cow_bitmap, True), (Map_blocks_read, True),
                    (Map_blocks_move, True), (Map_blocks_move, True)]\<rparr>"
proof -
  note t1 = cowing_flag_brackets_cow_and_move
              [where s = "cow_state_7\<lparr>st_handle := cowing_handle_7\<rparr>" and env = example_env
                 and active_snapshot = "Some active_snapshot_12" and inode = "Some regular_file_40"
                 and block = 100 and cow = True and snapshot = active_snapshot_12
                 and m = move_state_7 and maxblocks = 2 and move = True]
  note t2 = cowing_flag_brackets_cow_and_move
              [where s = cow_state_7 and env = example_env
                 and active_snapshot = "Some active_snapshot_12" and inode = "Some active_snapshot_12"
                 and block = 100 and cow = True and snapshot = active_snapshot_12
                 and m = move_state_7 and maxblocks = 2 and move = True]
  note t3 = cowing_flag_brackets_cow_and_move
              [where s = cow_state_7 and env = example_env
                 and active_snapshot = "Some active_snapshot_12" and inode = "Some regular_file_40"
                 and block = 100 and cow = True and snapshot = active_snapshot_12
                 and m = move_state_7 and maxblocks = 2 and move = True]
  have a: "ext4_snapshot_test_and_cow example_env (Some active_snapshot_12) (Some regular_file_40)
             100 True (cow_state_7\<lparr>st_handle := cowing_handle_7\<rparr>)
             = (0, cow_state_7\<lparr>st_handle := cowing_handle_7\<rparr>)"
    using t1 [THEN conjunct1] by (simp add: example_defs)
  have b: "ext4_snapshot_test_and_cow example_env (Some active_snapshot_12)
             (Some active_snapshot_12) 100 True cow_state_7 = (- 1, cow_state_7)"
    using t2 [THEN conjunct2, THEN conjunct1] by (simp add: example_defs same_inode_def)
  have c: "cow_bracket cow_state_7
             (snd (ext4_snapshot_test_and_cow example_env (Some active_snapshot_12)
                     (Some regular_file_40) 100 True cow_state_7))"
    using t3 [THEN conjunct2, THEN conjunct2, THEN conjunct1]
    by (simp add: example_defs same_inode_def ext4_snapshot_test_cowed_def)
  have lr: "move_loop_reached example_env (Some regular_file_40) 100 2 True"
    by (simp add: move_loop_reached_def cow_defs example_defs)
  have su: "answers_suffice (map_blocks_move example_env)
              (snd (ext4_snapshot_test_cow_bitmap example_env 100 2))"
    by (simp add: cow_defs example_defs)
  have pre: "\<not> h_cowing (mv_handle move_state_7)"
            "\<not> same_inode (Some regular_file_40) active_snapshot_12"
    by (simp_all add: example_defs same_inode_def)
  have d: "\<exists>r c m'. ext4_snapshot_test_and_move example_env (Some active_snapshot_12)
                   (Some regular_file_40) 100 2 True move_state_7 = Done (r, c, m')
                \<and> move_bracket move_state_7 m'"
    using t3 [THEN conjunct2, THEN conjunct2, THEN conjunct2, THEN conjunct2] pre su by blast
  have run: "ext4_snapshot_test_and_move example_env (Some active_snapshot_12)
               (Some regular_file_40) 100 2 True move_state_7
             = Done (2, 2, \<lparr>mv_handle = handle_7,
                              mv_quota = no_quota(12 := 2, 40 := - 2),
                              mv_trace = [(Test_cow_bitmap, True), (Map_blocks_read, True),
                                          (Map_blocks_move, True), (Map_blocks_move, True)]\<rparr>)"
    by (simp add: move_defs cow_defs example_defs Let_def fun_upd_twist)
  have e: "move_bracket move_state_7
       \<lparr>mv_handle = handle_7, mv_quota = no_quota(12 := 2, 40 := - 2),
        mv_trace = [(Test_cow_bitmap, True), (Map_blocks_read, True),
                    (Map_blocks_move, True), (Map_blocks_move, True)]\<rparr>"
    using t3 [THEN conjunct2, THEN conjunct2, THEN conjunct2, THEN conjunct1] run by blast
  show ?thesis using a b c lr su d e by (intro conjI)
qed

subsection \<open>The result of \<open>test_and_cow\<close>\<close>

lemma test_cow_bitmap_in_use:
  "0 < fst (ext4_snapshot_test_cow_bitmap env block n) \<longleftrightarrow> in_use_by_snapshot env block"
  by (simp add: ext4_snapshot_test_cow_bitmap_def in_use_by_snapshot_def
                ext4_mb_test_bit_range_def split: option.splits)

lemma test_cow_bitmap_cases:
  "fst (ext4_snapshot_test_cow_bitmap env block n) < 0
   \<or> fst (ext4_snapshot_test_cow_bitmap env block n) = 0
   \<or> fst (ext4_snapshot_test_cow_bitmap env block n) = 1"
  by (simp add: ext4_snapshot_test_cow_bitmap_def ext4_mb_test_bit_range_def split: option.splits)

lemma errno_val_pos: "0 < errno_val e"
  by (cases e) simp_all

lemma cow_copy_not_positive: "fst (cow_copy env s) \<le> 0"
  using errno_val_pos
  by (auto simp add: cow_copy_def cow_out_def cow_cowed_def Let_def less_imp_le
           split: getblk_result.splits option.splits)

lemma test_and_cow_cached:
  assumes nc: "\<not> h_cowing (st_handle s)" and ns: "\<not> same_inode inode snapshot"
      and ch: "ext4_snapshot_test_cowed (st_handle s) (st_bh s)"
  shows "ext4_snapshot_test_and_cow env (Some snapshot) inode block cow s = (0, s)"
  using assms by (simp add: ext4_snapshot_test_and_cow_def)

lemma test_and_cow_needs_cow:
  assumes nc: "\<not> h_cowing (st_handle s)" and ns: "\<not> same_inode inode snapshot"
      and ni: "ext4_snapshot_excluded inode = 0"
  shows "fst (ext4_snapshot_test_and_cow env (Some snapshot) inode block cow s) = 1
           \<longleftrightarrow> in_use_by_snapshot env block \<and> map_blocks_read env = Inr 0 \<and> \<not> cow
               \<and> \<not> ext4_snapshot_test_cowed (st_handle s) (st_bh s)"
proof (cases "ext4_snapshot_test_cowed (st_handle s) (st_bh s)")
  case True
  then show ?thesis using test_and_cow_cached [OF nc ns True] by simp
next
  case False
  note nt = this
  obtain err count where bm: "ext4_snapshot_test_cow_bitmap env block 1 = (err, count)"
    by (cases "ext4_snapshot_test_cow_bitmap env block 1")
  have iu: "in_use_by_snapshot env block \<longleftrightarrow> 0 < err"
    using test_cow_bitmap_in_use [of env block 1] bm by simp
  have copy: "\<And>s'. fst (cow_copy env s') \<noteq> 1"
    using cow_copy_not_positive by (metis not_one_le_zero)
  have ev: "\<And>e. - errno_val e \<noteq> 1"
    using errno_val_pos
    by (metis neg_0_less_iff_less not_less_iff_gr_or_eq zero_less_one less_trans)
  show ?thesis
    using nc ns nt ni bm iu copy ev
    unfolding ext4_snapshot_test_and_cow_def Let_def
    by (auto simp add: cow_out_def cow_cowed_def split: sum.splits option.splits)
qed

lemma test_and_cow_not_in_use:
  assumes nc: "\<not> h_cowing (st_handle s)" and ns: "\<not> same_inode inode snapshot"
      and z: "fst (ext4_snapshot_test_cow_bitmap env block 1) = 0"
  shows "fst (ext4_snapshot_test_and_cow env (Some snapshot) inode block cow s) = 0"
  using assms unfolding ext4_snapshot_test_and_cow_def Let_def
  by (auto simp add: cow_out_def cow_cowed_def split: prod.splits)

lemma test_and_cow_mapped:
  assumes nc: "\<not> h_cowing (st_handle s)" and ns: "\<not> same_inode inode snapshot"
      and iu: "in_use_by_snapshot env block" and mp: "map_blocks_read env = Inr n" "0 < n"
  shows "fst (ext4_snapshot_test_and_cow env (Some snapshot) inode block cow s) = 0"
proof -
  have "0 < fst (ext4_snapshot_test_cow_bitmap env block 1)"
    using iu by (simp add: test_cow_bitmap_in_use)
  then show ?thesis
    using assms unfolding ext4_snapshot_test_and_cow_def Let_def
    by (auto simp add: cow_out_def cow_cowed_def split: prod.splits)
qed

lemma cow_copy_result:
  assumes "st_bh s1 = Some b" "bh_mapped b" "bh_uptodate b"
  shows "(fst (cow_copy env s1) = 0
            \<longleftrightarrow> (case getblk_cow env of Getblk_null e \<Rightarrow> False | Getblk_mapped \<Rightarrow> True
                 | Getblk_new \<Rightarrow> jbd2_file_inode env = None))
       \<and> (getblk_cow env = Getblk_new \<longrightarrow>
             (Copy_buffer_cow, True) \<in> set (st_trace (snd (cow_copy env s1)))
               \<longleftrightarrow> h_cowing (st_handle s1) \<or> (Copy_buffer_cow, True) \<in> set (st_trace s1))"
proof -
  have nz: "\<And>e. - errno_val e \<noteq> 0"
    using errno_val_pos by (metis less_irrefl neg_0_equal_iff_equal)
  show ?thesis
    using nz unfolding cow_copy_def Let_def
    by (auto simp add: cow_out_def cow_cowed_def call_def
             split: getblk_result.splits option.splits)
qed

lemma test_and_cow_copy:
  assumes nc: "\<not> h_cowing (st_handle s)" and ns: "\<not> same_inode inode snapshot"
      and ni: "ext4_snapshot_excluded inode = 0"
      and nt: "\<not> ext4_snapshot_test_cowed (st_handle s) (st_bh s)"
      and iu: "in_use_by_snapshot env block" and mp: "map_blocks_read env = Inr 0"
  shows "fst (ext4_snapshot_test_and_cow env (Some snapshot) inode block True s) \<le> 0"
    and "fst (ext4_snapshot_test_and_cow env (Some snapshot) inode block True s) = 0
           \<longleftrightarrow> copy_succeeds env s"
    and "copy_succeeds env s \<and> getblk_cow env = Getblk_new \<longrightarrow>
           (Copy_buffer_cow, True)
             \<in> set (st_trace (snd (ext4_snapshot_test_and_cow env (Some snapshot) inode block
                                     True s)))"
proof -
  obtain err count where bm: "ext4_snapshot_test_cow_bitmap env block 1 = (err, count)"
    by (cases "ext4_snapshot_test_cow_bitmap env block 1")
  have pos: "0 < err"
    using test_cow_bitmap_in_use [of env block 1] bm iu by simp
  have nz: "\<And>e. - errno_val e \<noteq> 0"
    using errno_val_pos by (metis less_irrefl neg_0_equal_iff_equal)
  have le: "\<And>e. - errno_val e \<le> 0"
    using errno_val_pos by (simp add: less_imp_le)
  let ?s0 = "s\<lparr>st_handle := ext4_snapshot_cow_begin (st_handle s)\<rparr>"
  let ?s2 = "call Map_blocks_read (call Test_cow_bitmap ?s0)"
  have bh2: "st_bh ?s2 = st_bh s" by (simp add: call_def)
  have cw: "h_cowing (st_handle ?s2)" "\<And>x. h_cowing (st_handle (?s2\<lparr>st_bh := x\<rparr>))"
    by (simp_all add: call_def ext4_snapshot_cow_begin_def)
  have run: "ext4_snapshot_test_and_cow env (Some snapshot) inode block True s
        = (case st_bh s of
             None \<Rightarrow> cow_out (- errno_val EIO) ?s2
           | Some b \<Rightarrow>
               if \<not> bh_mapped b then cow_out (- errno_val EIO) ?s2
               else if \<not> bh_uptodate b then
                 (if \<not> reread_uptodate env then cow_out (- errno_val EIO) ?s2
                  else cow_copy env (?s2\<lparr>st_bh := Some (b\<lparr>bh_uptodate := True\<rparr>)\<rparr>))
               else cow_copy env ?s2)"
    using nc ns ni nt bm pos mp
    unfolding ext4_snapshot_test_and_cow_def Let_def
    by (simp add: bh2 split: option.splits)
  show "fst (ext4_snapshot_test_and_cow env (Some snapshot) inode block True s) \<le> 0"
    unfolding run using le cow_copy_not_positive
    by (auto simp add: cow_out_def split: option.splits)
  show "fst (ext4_snapshot_test_and_cow env (Some snapshot) inode block True s) = 0
           \<longleftrightarrow> copy_succeeds env s"
  proof (cases "st_bh s")
    case None
    then show ?thesis unfolding run using nz by (simp add: cow_out_def copy_succeeds_def)
  next
    case (Some b)
    have c1: "fst (cow_copy env (?s2\<lparr>st_bh := Some (b\<lparr>bh_uptodate := True\<rparr>)\<rparr>)) = 0
                \<longleftrightarrow> (case getblk_cow env of Getblk_null e \<Rightarrow> False | Getblk_mapped \<Rightarrow> True
                     | Getblk_new \<Rightarrow> jbd2_file_inode env = None)"
      if "bh_mapped b"
      using cow_copy_result [of "?s2\<lparr>st_bh := Some (b\<lparr>bh_uptodate := True\<rparr>)\<rparr>"
                                "b\<lparr>bh_uptodate := True\<rparr>" env] that
      by simp
    have c2: "fst (cow_copy env ?s2) = 0
                \<longleftrightarrow> (case getblk_cow env of Getblk_null e \<Rightarrow> False | Getblk_mapped \<Rightarrow> True
                     | Getblk_new \<Rightarrow> jbd2_file_inode env = None)"
      if "bh_mapped b" "bh_uptodate b"
      using cow_copy_result [of ?s2 b env] that Some bh2 by simp
    show ?thesis
      unfolding run using Some nz c1 c2
      by (auto simp add: cow_out_def copy_succeeds_def)
  qed
  show "copy_succeeds env s \<and> getblk_cow env = Getblk_new \<longrightarrow>
           (Copy_buffer_cow, True)
             \<in> set (st_trace (snd (ext4_snapshot_test_and_cow env (Some snapshot) inode block
                                     True s)))"
  proof (cases "st_bh s")
    case None
    then show ?thesis by (simp add: copy_succeeds_def)
  next
    case (Some b)
    have c1: "(Copy_buffer_cow, True)
                \<in> set (st_trace (snd (cow_copy env
                                         (?s2\<lparr>st_bh := Some (b\<lparr>bh_uptodate := True\<rparr>)\<rparr>))))"
      if "bh_mapped b" "getblk_cow env = Getblk_new"
      using cow_copy_result [of "?s2\<lparr>st_bh := Some (b\<lparr>bh_uptodate := True\<rparr>)\<rparr>"
                                "b\<lparr>bh_uptodate := True\<rparr>" env] that cw(2)
      by simp
    have c2: "(Copy_buffer_cow, True) \<in> set (st_trace (snd (cow_copy env ?s2)))"
      if "bh_mapped b" "bh_uptodate b" "getblk_cow env = Getblk_new"
      using cow_copy_result [of ?s2 b env] that Some bh2 cw(1) by simp
    show ?thesis
      unfolding run using Some c1 c2
      by (auto simp add: copy_succeeds_def)
  qed
qed

text \<open>
  Claim C1 says that with an active snapshot \<open>test_and_cow\<close> returns 1 exactly when the
  block is in use by the snapshot, is not mapped in the snapshot file and the call is
  test-only.  Under a handle that is already cowing the function returns 0 for such a
  block in a test-only call; and for the inode of a snapshot file other than the active
  one the function switches \<open>cow\<close> off and returns 1 to a caller that asked for the
  copy.
\<close>

theorem needs_cow_not_exactly_counterexample:
  "in_use_by_snapshot example_env 100 \<and> map_blocks_read example_env = Inr 0
   \<and> fst (ext4_snapshot_test_and_cow example_env (Some active_snapshot_12) None 100 False
            (cow_state_7\<lparr>st_handle := cowing_handle_7\<rparr>)) \<noteq> 1
   \<and> fst (ext4_snapshot_test_and_cow example_env (Some active_snapshot_12)
            (Some old_snapshot_11) 100 True cow_state_7) = 1"
  by (simp add: cow_defs example_defs in_use_by_snapshot_def Let_def)

text \<open>
  Claim C1, amended.  With an active snapshot, under a handle that is not already
  cowing, and for an inode that is neither the active snapshot nor another snapshot
  file, \<open>test_and_cow\<close> returns 1 exactly when the bit of the block is set in the COW
  bitmap, the block is not mapped in the snapshot file, the call is test-only and the
  buffer does not carry the COW mark of the running transaction (for a buffer that
  carries it the second clause of the claim gives 0).  It returns 0 when the
  block was COWed: when the buffer carries the COW mark of the running transaction
  (nothing is done then), when the block is already mapped in the snapshot file, and
  when the call is asked to copy a block that is in use and not mapped and the copy
  succeeds (a new snapshot block is then filled by \<open>ext4_snapshot_copy_buffer_cow\<close>); a
  copy that fails gives a negative result.  It returns 0 when the block does not need
  to be COWed, that is when the bitmap test says that the block is not in use, and
  whenever no snapshot is active.  \<open>get_create_access\<close> calls it in test-only mode
  without an inode, turns every positive result into \<open>-EIO\<close> and never returns a
  positive value.
\<close>

theorem needs_cow_result:
  assumes nc: "\<not> h_cowing (st_handle s)" and ns: "\<not> same_inode inode snapshot"
      and ni: "ext4_snapshot_excluded inode = 0"
  shows "(fst (ext4_snapshot_test_and_cow env (Some snapshot) inode block cow s) = 1
            \<longleftrightarrow> in_use_by_snapshot env block \<and> map_blocks_read env = Inr 0 \<and> \<not> cow
                \<and> \<not> ext4_snapshot_test_cowed (st_handle s) (st_bh s))
       \<and> (ext4_snapshot_test_cowed (st_handle s) (st_bh s) \<longrightarrow>
            ext4_snapshot_test_and_cow env (Some snapshot) inode block cow s = (0, s))
       \<and> (in_use_by_snapshot env block \<and> (\<exists>n. map_blocks_read env = Inr n \<and> 0 < n) \<longrightarrow>
            fst (ext4_snapshot_test_and_cow env (Some snapshot) inode block cow s) = 0)
       \<and> (\<not> ext4_snapshot_test_cowed (st_handle s) (st_bh s) \<and> in_use_by_snapshot env block
            \<and> map_blocks_read env = Inr 0 \<longrightarrow>
            fst (ext4_snapshot_test_and_cow env (Some snapshot) inode block True s) \<le> 0
            \<and> (fst (ext4_snapshot_test_and_cow env (Some snapshot) inode block True s) = 0
                  \<longleftrightarrow> copy_succeeds env s)
            \<and> (copy_succeeds env s \<and> getblk_cow env = Getblk_new \<longrightarrow>
                  (Copy_buffer_cow, True)
                    \<in> set (st_trace (snd (ext4_snapshot_test_and_cow env (Some snapshot) inode
                                            block True s)))))
       \<and> (fst (ext4_snapshot_test_cow_bitmap env block 1) = 0 \<longrightarrow>
            fst (ext4_snapshot_test_and_cow env (Some snapshot) inode block cow s) = 0)
       \<and> ext4_snapshot_test_and_cow env None inode block cow s = (0, s)
       \<and> (\<forall>active h b.
             fst (ext4_snapshot_get_create_access env True active h b)
               = (if 0 < fst (ext4_snapshot_test_and_cow env active None (bh_blocknr b) False
                               \<lparr>st_handle = h, st_bh = Some b, st_trace = []\<rparr>)
                  then - errno_val EIO
                  else fst (ext4_snapshot_test_and_cow env active None (bh_blocknr b) False
                              \<lparr>st_handle = h, st_bh = Some b, st_trace = []\<rparr>))
             \<and> fst (ext4_snapshot_get_create_access env True active h b) \<le> 0)"
proof (intro conjI allI)
  show "fst (ext4_snapshot_test_and_cow env (Some snapshot) inode block cow s) = 1
            \<longleftrightarrow> in_use_by_snapshot env block \<and> map_blocks_read env = Inr 0 \<and> \<not> cow
                \<and> \<not> ext4_snapshot_test_cowed (st_handle s) (st_bh s)"
    using nc ns ni by (rule test_and_cow_needs_cow)
  show "ext4_snapshot_test_cowed (st_handle s) (st_bh s) \<longrightarrow>
            ext4_snapshot_test_and_cow env (Some snapshot) inode block cow s = (0, s)"
    using nc ns by (simp add: test_and_cow_cached)
  show "in_use_by_snapshot env block \<and> (\<exists>n. map_blocks_read env = Inr n \<and> 0 < n) \<longrightarrow>
            fst (ext4_snapshot_test_and_cow env (Some snapshot) inode block cow s) = 0"
    using nc ns test_and_cow_mapped by blast
  show "\<not> ext4_snapshot_test_cowed (st_handle s) (st_bh s) \<and> in_use_by_snapshot env block
            \<and> map_blocks_read env = Inr 0 \<longrightarrow>
            fst (ext4_snapshot_test_and_cow env (Some snapshot) inode block True s) \<le> 0
            \<and> (fst (ext4_snapshot_test_and_cow env (Some snapshot) inode block True s) = 0
                  \<longleftrightarrow> copy_succeeds env s)
            \<and> (copy_succeeds env s \<and> getblk_cow env = Getblk_new \<longrightarrow>
                  (Copy_buffer_cow, True)
                    \<in> set (st_trace (snd (ext4_snapshot_test_and_cow env (Some snapshot) inode
                                            block True s))))"
    using test_and_cow_copy [OF nc ns ni] by blast
  show "fst (ext4_snapshot_test_cow_bitmap env block 1) = 0 \<longrightarrow>
            fst (ext4_snapshot_test_and_cow env (Some snapshot) inode block cow s) = 0"
    using nc ns by (simp add: test_and_cow_not_in_use)
  show "ext4_snapshot_test_and_cow env None inode block cow s = (0, s)"
    by (simp add: ext4_snapshot_test_and_cow_def)
next
  fix active h b
  let ?r = "ext4_snapshot_test_and_cow env active None (bh_blocknr b) False
              \<lparr>st_handle = h, st_bh = Some b, st_trace = []\<rparr>"
  show "fst (ext4_snapshot_get_create_access env True active h b)
               = (if 0 < fst ?r then - errno_val EIO else fst ?r)"
    by (simp add: ext4_snapshot_get_create_access_def Let_def split: prod.splits)
  then show "fst (ext4_snapshot_get_create_access env True active h b) \<le> 0"
    by simp
qed

theorem needs_cow_result_witness:
  "\<not> h_cowing (st_handle cow_state_7) \<and> \<not> same_inode None active_snapshot_12
   \<and> ext4_snapshot_excluded None = 0
   \<and> \<not> ext4_snapshot_test_cowed (st_handle cow_state_7) (st_bh cow_state_7)
   \<and> in_use_by_snapshot example_env 100 \<and> map_blocks_read example_env = Inr 0
   \<and> copy_succeeds example_env cow_state_7 \<and> getblk_cow example_env = Getblk_new
   \<and> fst (ext4_snapshot_test_and_cow example_env (Some active_snapshot_12) None 100 False
             cow_state_7) = 1
   \<and> fst (ext4_snapshot_test_and_cow example_env (Some active_snapshot_12) None 100 True
             cow_state_7) = 0
   \<and> (Copy_buffer_cow, True)
        \<in> set (st_trace (snd (ext4_snapshot_test_and_cow example_env (Some active_snapshot_12)
                                None 100 True cow_state_7)))
   \<and> fst (ext4_snapshot_get_create_access example_env True (Some active_snapshot_12) handle_7
             journalled_buffer) = - 5"
proof -
  have h: "\<not> h_cowing (st_handle cow_state_7)" "\<not> same_inode None active_snapshot_12"
          "ext4_snapshot_excluded None = 0"
    by (simp_all add: example_defs same_inode_def ext4_snapshot_excluded_def)
  have nt: "\<not> ext4_snapshot_test_cowed (st_handle cow_state_7) (st_bh cow_state_7)"
    by (simp add: example_defs ext4_snapshot_test_cowed_def)
  have e: "in_use_by_snapshot example_env 100" "map_blocks_read example_env = Inr 0"
    by (simp_all add: example_defs in_use_by_snapshot_def SNAPSHOT_BLOCK_GROUP_def
                      SNAPSHOT_BLOCK_GROUP_OFFSET_def)
  have cs: "copy_succeeds example_env cow_state_7" "getblk_cow example_env = Getblk_new"
    by (simp_all add: example_defs copy_succeeds_def)
  note t1 = needs_cow_result [where s = cow_state_7 and inode = None
              and snapshot = active_snapshot_12 and env = example_env and block = 100
              and cow = False, OF h]
  have a: "fst (ext4_snapshot_test_and_cow example_env (Some active_snapshot_12) None 100 False
             cow_state_7) = 1"
    using t1 [THEN conjunct1] e nt by simp
  note cp = t1 [THEN conjunct2, THEN conjunct2, THEN conjunct2, THEN conjunct1, rule_format,
                OF conjI [OF nt conjI [OF e]]]
  have b: "fst (ext4_snapshot_test_and_cow example_env (Some active_snapshot_12) None 100 True
             cow_state_7) = 0"
    using cp [THEN conjunct2, THEN conjunct1] cs(1) by simp
  have c: "(Copy_buffer_cow, True)
        \<in> set (st_trace (snd (ext4_snapshot_test_and_cow example_env (Some active_snapshot_12)
                                None 100 True cow_state_7)))"
    using cp [THEN conjunct2, THEN conjunct2] cs by simp
  have s: "\<lparr>st_handle = handle_7, st_bh = Some journalled_buffer, st_trace = []\<rparr> = cow_state_7"
       "bh_blocknr journalled_buffer = 100"
    by (simp_all add: example_defs)
  have d: "fst (ext4_snapshot_get_create_access example_env True (Some active_snapshot_12)
             handle_7 journalled_buffer) = - 5"
    using t1 [THEN conjunct2, THEN conjunct2, THEN conjunct2, THEN conjunct2, THEN conjunct2,
              THEN conjunct2, THEN spec, THEN spec, THEN spec, THEN conjunct1,
              of "Some active_snapshot_12" handle_7 journalled_buffer] a
    by (simp only: s) simp
  show ?thesis using h nt e cs a b c d by (intro conjI)
qed

subsection \<open>The COW cache\<close>

lemma mark_cowed_tag:
  assumes "bh_jbd b" "bh_jh b = Some jh"
  shows "\<exists>b1 jh1. ext4_snapshot_mark_cowed h (Some b) = Some b1 \<and> bh_jbd b1
                  \<and> bh_jh b1 = Some jh1 \<and> b_cow_tid jh1 = t_tid h"
  using assms by (simp add: ext4_snapshot_mark_cowed_def)

lemma cow_cowed_tagged:
  assumes "st_bh s = Some b" "bh_jbd b" "bh_jh b = Some jh" "cow_cowed err s = (r, s1)"
  shows "tagged (t_tid (st_handle s)) s1"
  using assms
  by (auto simp add: tagged_def cow_cowed_def cow_out_def ext4_snapshot_mark_cowed_def)

lemma cow_copy_tagged:
  assumes "st_bh s = Some b" "bh_jbd b" "bh_jh b = Some jh" "cow_copy env s = (0, s1)"
  shows "tagged (t_tid (st_handle s)) s1"
proof -
  have nz: "\<And>e. - errno_val e \<noteq> 0" using errno_val_pos by (metis less_irrefl neg_0_equal_iff_equal)
  let ?s2 = "call Getblk_cow s"
  let ?s3 = "call Copy_buffer_cow ?s2"
  have b2: "st_bh ?s2 = Some b" "st_bh ?s3 = Some b" using assms(1) by (simp_all add: call_def)
  have h2: "st_handle ?s2 = st_handle s" "st_handle ?s3 = st_handle s" by (simp_all add: call_def)
  note c2 = cow_cowed_tagged [OF b2(1) assms(2,3), unfolded h2]
  note c3 = cow_cowed_tagged [OF b2(2) assms(2,3), unfolded h2]
  show ?thesis
    using assms(4) nz c2 c3 unfolding cow_copy_def Let_def
    by (auto simp add: cow_out_def split: getblk_result.splits option.splits)
qed

lemma test_and_cow_tags:
  assumes first: "ext4_snapshot_test_and_cow env (Some snapshot) inode block cow s = (0, s1)"
      and nc: "\<not> h_cowing (st_handle s)"
      and jb: "st_bh s = Some b" "bh_jbd b" "bh_jh b = Some jh"
  shows "tagged (t_tid (st_handle s)) s1 \<and> \<not> same_inode inode snapshot"
proof -
  have nz: "\<And>e. - errno_val e \<noteq> 0" using errno_val_pos by (metis less_irrefl neg_0_equal_iff_equal)
  have ns: "\<not> same_inode inode snapshot"
    using first nc nz by (auto simp add: ext4_snapshot_test_and_cow_def split: if_splits)
  show ?thesis
  proof (cases "ext4_snapshot_test_cowed (st_handle s) (st_bh s)")
    case True
    then have "s1 = s" using first nc ns by (simp add: ext4_snapshot_test_and_cow_def)
    then show ?thesis using True jb ns
      by (simp add: tagged_def ext4_snapshot_test_cowed_def)
  next
    case False
    let ?s0 = "s\<lparr>st_handle := ext4_snapshot_cow_begin (st_handle s)\<rparr>"
    let ?s1 = "call Test_cow_bitmap ?s0"
    let ?s2 = "call Map_blocks_read ?s1"
    let ?b' = "b\<lparr>bh_uptodate := True\<rparr>"
    let ?s3 = "?s2\<lparr>st_bh := Some ?b'\<rparr>"
    have tid: "t_tid (st_handle ?s1) = t_tid (st_handle s)" "t_tid (st_handle ?s2) = t_tid (st_handle s)"
              "t_tid (st_handle ?s3) = t_tid (st_handle s)"
      by (simp_all add: call_def ext4_snapshot_cow_begin_def)
    have bh: "st_bh ?s1 = Some b" "st_bh ?s2 = Some b" "st_bh ?s3 = Some ?b'"
      using jb(1) by (simp_all add: call_def)
    have jb': "bh_jbd ?b'" "bh_jh ?b' = Some jh" using jb by simp_all
    note k1 = cow_cowed_tagged [OF bh(1) jb(2,3), unfolded tid]
    note k2 = cow_cowed_tagged [OF bh(2) jb(2,3), unfolded tid]
    note k3 = cow_copy_tagged [OF bh(2) jb(2,3), unfolded tid]
    note k4 = cow_copy_tagged [OF bh(3) jb', unfolded tid]
    have "tagged (t_tid (st_handle s)) s1"
      using first nc ns False nz jb(1) bh(2) k1 k2 k3 k4
      unfolding ext4_snapshot_test_and_cow_def Let_def
      by (auto simp add: cow_out_def split: prod.splits sum.splits option.splits if_splits)
    then show ?thesis using ns by simp
  qed
qed

text \<open>
  Claim C2.  After a call of \<open>test_and_cow\<close> that returns 0 under a handle that was
  not cowing, for a buffer attached to the journal, the journal head of the buffer
  carries the transaction id of the handle; a second call for the buffer under any
  handle with that transaction id returns 0 and leaves the state as it is, trace
  included: nothing is copied.  A buffer that is not attached to the journal never hits
  the cache.
\<close>

theorem cow_once_per_transaction:
  assumes first: "ext4_snapshot_test_and_cow env (Some snapshot) inode block cow s = (0, s1)"
      and nc: "\<not> h_cowing (st_handle s)"
      and jb: "st_bh s = Some b" "bh_jbd b" "bh_jh b = Some jh"
  shows "(\<exists>b1 jh1. st_bh s1 = Some b1 \<and> bh_jbd b1 \<and> bh_jh b1 = Some jh1
                  \<and> b_cow_tid jh1 = t_tid (st_handle s)
                  \<and> (\<forall>env2 cow2 h2. t_tid h2 = b_cow_tid jh1 \<longrightarrow>
                        ext4_snapshot_test_and_cow env2 (Some snapshot) inode block cow2
                          (s1\<lparr>st_handle := h2\<rparr>) = (0, s1\<lparr>st_handle := h2\<rparr>)))
       \<and> (\<forall>h2 b2. \<not> bh_jbd b2 \<longrightarrow> \<not> ext4_snapshot_test_cowed h2 (Some b2))"
proof
  have tg: "tagged (t_tid (st_handle s)) s1" and ns: "\<not> same_inode inode snapshot"
    using test_and_cow_tags [OF first nc jb] by simp_all
  then obtain b1 jh1 where t: "st_bh s1 = Some b1" "bh_jbd b1" "bh_jh b1 = Some jh1"
      "b_cow_tid jh1 = t_tid (st_handle s)"
    unfolding tagged_def by blast
  have second: "ext4_snapshot_test_and_cow env2 (Some snapshot) inode block cow2
                  (s1\<lparr>st_handle := h2\<rparr>) = (0, s1\<lparr>st_handle := h2\<rparr>)"
    if "t_tid h2 = b_cow_tid jh1" for env2 cow2 h2
    using that t ns
    by (simp add: ext4_snapshot_test_and_cow_def ext4_snapshot_test_cowed_def)
  show "\<exists>b1 jh1. st_bh s1 = Some b1 \<and> bh_jbd b1 \<and> bh_jh b1 = Some jh1
                  \<and> b_cow_tid jh1 = t_tid (st_handle s)
                  \<and> (\<forall>env2 cow2 h2. t_tid h2 = b_cow_tid jh1 \<longrightarrow>
                        ext4_snapshot_test_and_cow env2 (Some snapshot) inode block cow2
                          (s1\<lparr>st_handle := h2\<rparr>) = (0, s1\<lparr>st_handle := h2\<rparr>))"
    using t second by blast
next
  show "\<forall>h2 b2. \<not> bh_jbd b2 \<longrightarrow> \<not> ext4_snapshot_test_cowed h2 (Some b2)"
    by (simp add: ext4_snapshot_test_cowed_def)
qed

theorem cow_once_per_transaction_witness:
  "(\<exists>s1. ext4_snapshot_test_and_cow example_env (Some active_snapshot_12) (Some regular_file_40)
            100 True cow_state_7 = (0, s1)
         \<and> st_trace s1 = [(Test_cow_bitmap, True), (Map_blocks_read, True),
                           (Getblk_cow, True), (Copy_buffer_cow, True)]
         \<and> ext4_snapshot_test_and_cow example_env (Some active_snapshot_12)
              (Some regular_file_40) 100 True (s1\<lparr>st_handle := handle_7\<rparr>)
             = (0, s1\<lparr>st_handle := handle_7\<rparr>))
   \<and> \<not> h_cowing (st_handle cow_state_7)
   \<and> st_bh cow_state_7 = Some journalled_buffer \<and> bh_jbd journalled_buffer
   \<and> bh_jh journalled_buffer = Some \<lparr>b_cow_tid = 6\<rparr>"
proof -
  let ?s1 = "\<lparr>st_handle = handle_7,
              st_bh = Some (journalled_buffer\<lparr>bh_jh := Some \<lparr>b_cow_tid = 7\<rparr>\<rparr>),
              st_trace = [(Test_cow_bitmap, True), (Map_blocks_read, True),
                          (Getblk_cow, True), (Copy_buffer_cow, True)]\<rparr>"
  have first: "ext4_snapshot_test_and_cow example_env (Some active_snapshot_12)
                 (Some regular_file_40) 100 True cow_state_7 = (0, ?s1)"
    by (simp add: cow_defs example_defs Let_def)
  have h: "\<not> h_cowing (st_handle cow_state_7)" "st_bh cow_state_7 = Some journalled_buffer"
          "bh_jbd journalled_buffer" "bh_jh journalled_buffer = Some \<lparr>b_cow_tid = 6\<rparr>"
    by (simp_all add: example_defs)
  note t = cow_once_per_transaction [OF first h, THEN conjunct1]
  have "ext4_snapshot_test_and_cow example_env (Some active_snapshot_12)
              (Some regular_file_40) 100 True (?s1\<lparr>st_handle := handle_7\<rparr>)
             = (0, ?s1\<lparr>st_handle := handle_7\<rparr>)"
    using t by (auto simp add: example_defs)
  then show ?thesis using first h by simp
qed

subsection \<open>Quota of moved blocks\<close>

lemma move_blocks_quota:
  "move_blocks answers snap count moved s1 = Some (e, c, m, s2) \<Longrightarrow>
     mv_quota s2 = (mv_quota s1)(snap := mv_quota s1 snap + (m - moved))
     \<and> (e = None \<longrightarrow> c = 0 \<and> m - moved = count)"
proof (induction answers snap count moved s1 rule: move_blocks.induct)
  case (1 snap count moved s)
  then show ?case by (auto split: if_splits)
next
  case (2 a answers snap count moved s)
  show ?case
  proof (cases "count = 0")
    case True
    then show ?thesis using 2(2) by auto
  next
    case False
    note nz = this
    show ?thesis
    proof (cases a)
      case (Inl err)
      then show ?thesis using 2(2) nz by (auto simp add: call_mv_def Let_def)
    next
      case (Inr k)
      show ?thesis
      proof (cases "k = 0")
        case True
        then show ?thesis using 2(2) nz Inr by (auto simp add: call_mv_def Let_def)
      next
        case False
        let ?s = "call_mv Map_blocks_move s"
        let ?s' = "?s\<lparr>mv_quota := dquot_alloc_block_nofail snap (int k) (mv_quota ?s)\<rparr>"
        have rec: "move_blocks answers snap (count - int k) (moved + int k) ?s' = Some (e, c, m, s2)"
          using 2(2) nz Inr False by (simp add: Let_def)
        have ih: "mv_quota s2 = (mv_quota ?s')(snap := mv_quota ?s' snap + (m - (moved + int k)))
                  \<and> (e = None \<longrightarrow> c = 0 \<and> m - (moved + int k) = count - int k)"
          using 2(1) [OF nz refl Inr False rec] .
        have q: "mv_quota ?s' = (mv_quota s)(snap := mv_quota s snap + int k)"
          by (simp add: call_mv_def dquot_alloc_block_nofail_def)
        show ?thesis using ih unfolding q by auto
      qed
    qed
  qed
qed

lemma move_blocks_error:
  "move_blocks answers snap count moved s1 = Some (Some x, c, m, s2) \<Longrightarrow> x \<le> 0"
proof (induction answers snap count moved s1 rule: move_blocks.induct)
  case (1 snap count moved s)
  then show ?case by (auto split: if_splits)
next
  case (2 a answers snap count moved s)
  have ev: "\<And>e. - errno_val e \<le> 0"
    by (metis errno.exhaust errno_val.simps neg_le_0_iff_le zero_le_numeral zero_le_one)
  show ?case using 2 ev
    by (auto simp add: Let_def split: if_splits sum.splits)
qed

lemma move_success_transfers_quota:
  assumes run: "ext4_snapshot_test_and_move env (Some snapshot) (Some i) block maxblocks True s
                  = Done (n, c, s')"
      and pos: "0 < n" and ne: "ext4_snapshot_excluded (Some i) = 0"
  shows "mv_quota s' (i_ino i) = mv_quota s (i_ino i) - n
       \<and> mv_quota s' (i_ino snapshot) = mv_quota s (i_ino snapshot) + n
       \<and> (\<forall>ino. ino \<noteq> i_ino i \<and> ino \<noteq> i_ino snapshot \<longrightarrow> mv_quota s' ino = mv_quota s ino)"
proof -
  have nb: "\<not> h_cowing (mv_handle s)" "i_ino i \<noteq> i_ino snapshot"
    using run by (auto simp add: ext4_snapshot_test_and_move_def same_inode_def split: if_splits)
  have nz: "\<And>e. \<not> 0 < - errno_val e"
    by (metis errno.exhaust errno_val.simps neg_0_less_iff_less not_less_iff_gr_or_eq
              zero_less_numeral zero_less_one)
  show ?thesis
    using run pos ne nb nz
    unfolding ext4_snapshot_test_and_move_def Let_def move_out_def
    by (auto simp add: same_inode_def dquot_free_block_def call_mv_def
             split: if_splits sum.splits option.splits prod.splits
             dest!: move_blocks_quota move_blocks_error)
qed


lemma move_blocks_first_fails:
  assumes "move_blocks answers snap count moved s1 = Some (e, c, m, s2)"
      and "case answers of Inr k # rest \<Rightarrow> k = 0 | _ \<Rightarrow> True"
  shows "mv_quota s2 = mv_quota s1 \<and> m = moved"
  using assms
  by (cases answers)
     (auto simp add: Let_def call_mv_def split: if_splits sum.splits)

lemma move_clean_failure_keeps_quota:
  assumes run: "ext4_snapshot_test_and_move env active_snapshot inode block maxblocks move s
                  = Done (n, c, s')"
      and first: "case map_blocks_move env of Inr k # rest \<Rightarrow> k = 0 | _ \<Rightarrow> True"
  shows "mv_quota s' = mv_quota s"
proof (cases active_snapshot)
  case None
  then show ?thesis using run by (simp add: ext4_snapshot_test_and_move_def)
next
  case (Some snapshot)
  have z: "\<And>q ino. q(ino := q ino - (0::int)) = q" by auto
  show ?thesis
    using run Some
    unfolding ext4_snapshot_test_and_move_def Let_def move_out_def
    by (auto simp add: dquot_free_block_def call_mv_def z
             split: if_splits sum.splits option.splits prod.splits
             dest!: move_blocks_first_fails [OF _ first])
qed

text \<open>
  Claim C4.  A move of \<open>n\<close> blocks that succeeds takes \<open>n\<close> blocks off the quota of the
  owning inode and adds \<open>n\<close> to the quota of the snapshot inode
  (\<open>move_success_transfers_quota\<close>), and a move whose first mapping call fails leaves
  both quotas as they were (\<open>move_clean_failure_keeps_quota\<close>).  A move that fails
  after an earlier round of the loop has mapped blocks does not.  That needs a range
  that crosses the boundary of an indirect block of the snapshot file, the case that the
  comment before the loop names: with blocks of 4 KiB, and the blocks of the volume
  mapped in the snapshot file from its first double indirect slot on (logical block 12 +
  1024 + 1023 for block 1023), block 1023 is the last slot of its indirect block, so a
  mapping call that starts there maps one block, and block 1024 needs the next indirect
  block.  Asked to move blocks 1023 and 1024, with a first call that maps one block and
  a second that fails with \<open>ENOSPC\<close>, the function returns \<open>-ENOSPC\<close>, the snapshot
  inode (12) stays charged for one block and the file (40) is not refunded.
\<close>

theorem move_partial_failure_keeps_snapshot_charge:
  "ext4_snapshot_test_and_move enospc_env (Some active_snapshot_12) (Some regular_file_40)
     1023 2 True move_state_7
   = Done (- errno_val ENOSPC, 1,
           \<lparr>mv_handle = handle_7, mv_quota = no_quota(12 := 1),
            mv_trace = [(Test_cow_bitmap, True), (Map_blocks_read, True),
                        (Map_blocks_move, True), (Map_blocks_move, True)]\<rparr>)
   \<and> (no_quota(12 := 1)) 12 \<noteq> mv_quota move_state_7 12
   \<and> (no_quota(12 := 1)) 40 = mv_quota move_state_7 40
   \<and> next3_block_to_path 10 4 True (12 + 1024 + 1023)
       = \<lparr>depth = 3, offsets = [NEXT3_DIND_BLOCK, 0, 1023], boundary = 0\<rparr>
   \<and> next3_block_to_path 10 4 True (12 + 1024 + 1024)
       = \<lparr>depth = 3, offsets = [NEXT3_DIND_BLOCK, 1, 0], boundary = 1023\<rparr>
   \<and> next3_blks_to_allocate (replicate 1024 0) 1023 0 2 0 = Some 1"
proof -
  have run: "ext4_snapshot_test_and_move enospc_env (Some active_snapshot_12)
               (Some regular_file_40) 1023 2 True move_state_7
             = Done (- errno_val ENOSPC, 1,
                     \<lparr>mv_handle = handle_7, mv_quota = no_quota(12 := 1),
                      mv_trace = [(Test_cow_bitmap, True), (Map_blocks_read, True),
                                  (Map_blocks_move, True), (Map_blocks_move, True)]\<rparr>)"
    by (simp add: move_defs cow_defs example_defs Let_def)
  have q: "(no_quota(12 := 1)) 12 \<noteq> mv_quota move_state_7 12"
          "(no_quota(12 := 1)) 40 = mv_quota move_state_7 40"
    by (simp_all add: example_defs)
  have p1: "next3_block_to_path 10 4 True (12 + 1024 + 1023)
              = \<lparr>depth = 3, offsets = [NEXT3_DIND_BLOCK, 0, 1023], boundary = 0\<rparr>"
    by (simp add: next3_block_to_path_def path_result_def NEXT3_NDIR_BLOCKS_def Let_def)
  have p2: "next3_block_to_path 10 4 True (12 + 1024 + 1024)
              = \<lparr>depth = 3, offsets = [NEXT3_DIND_BLOCK, 1, 0], boundary = 1023\<rparr>"
    by (simp add: next3_block_to_path_def path_result_def NEXT3_NDIR_BLOCKS_def Let_def)
  have sc: "blks_scan (replicate 1024 0) 1023 2 0 (Suc 0) = Some (Suc 0)"
    by (subst blks_scan.simps) simp
  have b: "next3_blks_to_allocate (replicate 1024 0) 1023 0 2 0 = Some 1"
    using sc by (simp add: next3_blks_to_allocate_def ulong_of_int_def)
  show ?thesis using run q p1 p2 b by (intro conjI)
qed

section \<open>Proofs: the guards of \<open>next3_truncate\<close>\<close>

lemma can_truncate_refuses:
  assumes "ti_append inode \<or> ti_immutable inode \<or> next3_inode_is_fast_symlink env inode
           \<or> (ti_type inode \<noteq> S_IFREG \<and> ti_type inode \<noteq> S_IFDIR \<and> ti_type inode \<noteq> S_IFLNK)"
  shows "\<not> next3_can_truncate env inode"
  using assms
  by (auto simp add: next3_can_truncate_def next3_inode_is_fast_symlink_def Let_def)

lemma truncate_on_snapshot_list:
  assumes "ti_snapshot_list (ts_inode s)"
  shows "next3_truncate env s = s"
  using assms by (simp add: next3_truncate_def Let_def)

lemma truncate_refused:
  assumes "\<not> next3_can_truncate env (ts_inode s)"
  shows "ts_inode (next3_truncate env s) = ts_inode s"
    and "ts_freed (next3_truncate env s) = ts_freed s"
  using assms by (simp_all add: next3_truncate_def out_notrans_def Let_def)

text \<open>
  Claim C10.  \<open>next3_truncate\<close> leaves the inode (its slot array \<open>i_data\<close>, \<open>i_size\<close>,
  \<open>i_disksize\<close>, \<open>i_blocks\<close> and every other field) as it was and hands no block to
  \<open>next3_free_blocks\<close> when the inode is on the snapshot list, is append-only or
  immutable, is a fast symbolic link, or is neither a regular file nor a directory nor
  a symbolic link.  For an inode on the snapshot list the function returns at once, so
  the whole state is unchanged; in the other cases the only effect is that of the label
  \<open>out_notrans\<close>.
\<close>

theorem truncate_guards_leave_inode:
  assumes "ti_snapshot_list (ts_inode s) \<or> ti_append (ts_inode s) \<or> ti_immutable (ts_inode s)
           \<or> next3_inode_is_fast_symlink env (ts_inode s)
           \<or> (ti_type (ts_inode s) \<noteq> S_IFREG \<and> ti_type (ts_inode s) \<noteq> S_IFDIR
               \<and> ti_type (ts_inode s) \<noteq> S_IFLNK)"
  shows "ts_inode (next3_truncate env s) = ts_inode s
         \<and> ts_freed (next3_truncate env s) = ts_freed s
         \<and> (ti_snapshot_list (ts_inode s) \<longrightarrow> next3_truncate env s = s)
         \<and> (\<not> ti_snapshot_list (ts_inode s) \<longrightarrow> next3_truncate env s = out_notrans s)"
proof (cases "ti_snapshot_list (ts_inode s)")
  case True
  then show ?thesis by (simp add: truncate_on_snapshot_list)
next
  case False
  with assms have nc: "\<not> next3_can_truncate env (ts_inode s)"
    using can_truncate_refuses [of "ts_inode s" env] by blast
  have "next3_truncate env s = out_notrans s"
    using False nc by (simp add: next3_truncate_def Let_def)
  with False show ?thesis
    by (simp add: out_notrans_def)
qed

theorem truncate_guards_leave_inode_witness:
  "next3_inode_is_fast_symlink example_truncate_env fast_symlink
   \<and> ts_inode (next3_truncate example_truncate_env
                 \<lparr>ts_inode = fast_symlink, ts_orphan = True, ts_freed = []\<rparr>) = fast_symlink
   \<and> ts_freed (next3_truncate example_truncate_env
                 \<lparr>ts_inode = fast_symlink, ts_orphan = True, ts_freed = []\<rparr>) = []
   \<and> ts_inode (next3_truncate example_truncate_env
                 \<lparr>ts_inode = append_only_file\<lparr>ti_append := False\<rparr>, ts_orphan = True,
                  ts_freed = []\<rparr>) \<noteq> append_only_file\<lparr>ti_append := False\<rparr>"
proof -
  have fs: "next3_inode_is_fast_symlink example_truncate_env fast_symlink"
    by (simp add: next3_inode_is_fast_symlink_def fast_symlink_def example_truncate_env_def)
  have "ts_inode (next3_truncate example_truncate_env
                 \<lparr>ts_inode = fast_symlink, ts_orphan = True, ts_freed = []\<rparr>) = fast_symlink
   \<and> ts_freed (next3_truncate example_truncate_env
                 \<lparr>ts_inode = fast_symlink, ts_orphan = True, ts_freed = []\<rparr>) = []"
    using truncate_guards_leave_inode
      [where s = "\<lparr>ts_inode = fast_symlink, ts_orphan = True, ts_freed = []\<rparr>"
         and env = example_truncate_env] fs
    by simp
  moreover have "ts_inode (next3_truncate example_truncate_env
                 \<lparr>ts_inode = append_only_file\<lparr>ti_append := False\<rparr>, ts_orphan = True,
                  ts_freed = []\<rparr>) \<noteq> append_only_file\<lparr>ti_append := False\<rparr>"
    by code_simp
  ultimately show ?thesis using fs by simp
qed

end
